theory Spec2Isabelle
  imports Complex_Main
begin

section \<open>Errors and result values\<close>

text \<open>
  Every exception the Python source can raise is a value of \<open>error\<close>; a fallible
  function returns \<open>error + 'a\<close> with \<open>Inl\<close> for the raised exception.
  \<^item> \<open>ZeroDivisionError\<close>: \<open>//\<close>, \<open>divmod\<close> or \<open>/\<close> with a zero divisor;
  \<^item> \<open>OffFinGrid y\<close>: the \<open>ValueError('OD coordinate y is not on fin grid.')\<close> of
    \<open>get_fin_idx\<close>;
  \<^item> \<open>GuardRingSpace\<close>: the \<open>ValueError('Cannot have empty spaces between guard ring
    edges.')\<close> of \<open>get_mos_space_info\<close>;
  \<^item> \<open>ODImplantEnclosureError\<close>: the exception of that name;
  \<^item> \<open>AssertionError\<close>, \<open>IndexError\<close>, \<open>KeyError\<close>: as in Python;
  \<^item> \<open>ExternalError\<close>: whatever an external collaborator (fill solver, float
    arithmetic) raises.
\<close>

datatype error =
    ZeroDivisionError
  | OffFinGrid int
  | GuardRingSpace
  | ODImplantEnclosureError
  | AssertionError
  | IndexError
  | KeyError
  | ExternalError

definition ebind :: "error + 'a \<Rightarrow> ('a \<Rightarrow> error + 'b) \<Rightarrow> error + 'b" where
  "ebind m f = (case m of Inl e \<Rightarrow> Inl e | Inr v \<Rightarrow> f v)"

text \<open>Python's \<open>a // b\<close> on integers: floor division, raising on a zero divisor.\<close>

definition floordiv :: "int \<Rightarrow> int \<Rightarrow> error + int" where
  "floordiv a b = (if b = 0 then Inl ZeroDivisionError else Inr (a div b))"

text \<open>Python's \<open>-(-a // b)\<close>: the ceiling division idiom of the source.\<close>

definition ceildiv :: "int \<Rightarrow> int \<Rightarrow> error + int" where
  "ceildiv a b = (if b = 0 then Inl ZeroDivisionError else Inr (- ((- a) div b)))"

text \<open>Python's \<open>xs[i]\<close>: a negative index counts from the end, out of range raises.\<close>

definition py_index :: "'a list \<Rightarrow> int \<Rightarrow> error + 'a" where
  "py_index xs i =
     (let n = int (length xs); j = (if i < 0 then i + n else i)
      in if 0 \<le> j \<and> j < n then Inr (xs ! nat j) else Inl IndexError)"

section \<open>Technology constants\<close>

datatype Orient2D = Orient_x | Orient_y

fun perpendicular :: "Orient2D \<Rightarrow> Orient2D" where
  "perpendicular Orient_x = Orient_y"
| "perpendicular Orient_y = Orient_x"

type_synonym lay_purp = "string \<times> string"

text \<open>
  One entry of \<open>wire_info['info_list']\<close>:
  \<open>(w, is_horiz, v_w, v_h, v_sp, v_bot_enc, v_top_enc)\<close>.
\<close>

type_synonym wire_entry = "int \<times> bool \<times> int \<times> int \<times> int \<times> int \<times> int"

record wire_info =
  bot_layer :: int
  info_list :: "wire_entry list"

text \<open>
  The dictionary \<open>mos_config\<close>, one field per key the source reads. The keys are fixed
  by the technology file, so a missing key is outside the model.
\<close>

record mos_config =
  fin_p :: int
  fin_h :: int
  od_fin_exty_constants :: "int \<times> int \<times> int"
  od_po_extx_constants :: "int \<times> int \<times> int"
  od_spx :: int
  od_spy :: int
  imp_od_encx :: int
  end_margin :: int
  edge_margin :: int
  mp_cpo_spy :: int
  mp_h :: int
  mp_spy :: int
  mp_po_extx :: int
  cpo_od_spy :: int
  cpo_h :: int
  cpo_spy :: int
  md_spy :: int
  md_h_min :: int
  md_od_exty :: int
  md_w :: int
  g_wire_info :: wire_info
  d_wire_info :: wire_info

text \<open>
  The layer table \<open>tech_info.config['mos_lay_table']\<close> and the queries of the external
  \<open>TechInfo\<close> object that the source calls. They belong to the layout framework, not to
  this repository, and are taken as parameters.
\<close>

record mos_lay_table =
  lay_MP :: lay_purp
  lay_PO :: lay_purp
  lay_PO_DUMMY :: lay_purp
  lay_PO_PODE :: lay_purp
  lay_CPO :: lay_purp
  lay_OD :: lay_purp
  lay_MD :: lay_purp
  lay_FB :: lay_purp

record tech_info =
  lay_table :: mos_lay_table
  get_lay_purp_list :: "int \<Rightarrow> lay_purp list"
  get_next_length :: "string \<Rightarrow> string \<Rightarrow> Orient2D \<Rightarrow> int \<Rightarrow> int \<Rightarrow> bool \<Rightarrow> int"
  get_min_line_end_space :: "string \<Rightarrow> int \<Rightarrow> string \<Rightarrow> bool \<Rightarrow> int"
  get_threshold_layers :: "string \<Rightarrow> string \<Rightarrow> lay_purp list"
  get_implant_layers :: "string \<Rightarrow> lay_purp list"
  get_well_layers :: "string \<Rightarrow> lay_purp list"

text \<open>The object \<open>MOSTechCDSFFMPT\<close>: \<open>self.lch\<close>, \<open>self.sd_pitch\<close>,
  \<open>self.mos_config\<close> and \<open>self.tech_info\<close>.\<close>

record mos_tech =
  lch :: int
  sd_pitch :: int
  config :: mos_config
  tinfo :: tech_info

section \<open>Grid quantizer\<close>

definition od_fin_exty :: "mos_tech \<Rightarrow> int" where
  "od_fin_exty t =
     (case od_fin_exty_constants (config t) of
        (v0, v1, v2) \<Rightarrow> v0 + v1 * fin_h (config t) + v2 * fin_p (config t))"

definition od_po_extx :: "mos_tech \<Rightarrow> int" where
  "od_po_extx t =
     (case od_po_extx_constants (config t) of
        (v0, v1, v2) \<Rightarrow> v0 + (v1 * lch t + v2 * sd_pitch t) div 2)"

definition get_od_height :: "mos_tech \<Rightarrow> int \<Rightarrow> int" where
  "get_od_height t w = fin_p (config t) * (w - 1) + fin_h (config t)"

text \<open>
  \<open>get_fin_idx(y, is_top_edge, round_up)\<close>; \<open>round_up\<close> is \<open>None\<close> (exact mode),
  \<open>True\<close> or \<open>False\<close>. The result \<open>q + (not_on_grid and round_up)\<close> adds the boolean
  as 0 or 1.
\<close>

definition get_fin_idx :: "mos_tech \<Rightarrow> int \<Rightarrow> bool \<Rightarrow> bool option \<Rightarrow> error + int" where
  "get_fin_idx t y is_top_edge round_up =
     (let fin_h' = fin_h (config t);
          fin_p' = fin_p (config t);
          fin_p2 = fin_p' div 2;
          fin_h2 = fin_h' div 2;
          delta0 = fin_h2 + od_fin_exty t;
          delta = (if \<not> is_top_edge then - delta0 else delta0);
          quantity = y - delta - fin_p2
      in if fin_p' = 0 then Inl ZeroDivisionError
         else
           (let q = quantity div fin_p';
                r = quantity mod fin_p';
                not_on_grid = (r \<noteq> 0)
            in if round_up = None \<and> not_on_grid then Inl (OffFinGrid y)
               else Inr (q + (if not_on_grid \<and> round_up = Some True then 1 else 0))))"

definition get_od_edge :: "mos_tech \<Rightarrow> int \<Rightarrow> bool \<Rightarrow> int" where
  "get_od_edge t fin_idx is_top_edge =
     (let fin_p' = fin_p (config t);
          delta0 = fin_h (config t) div 2 + od_fin_exty t;
          delta = (if \<not> is_top_edge then - delta0 else delta0)
      in fin_idx * fin_p' + fin_p' div 2 + delta)"

definition snap_od_edge :: "mos_tech \<Rightarrow> int \<Rightarrow> bool \<Rightarrow> bool \<Rightarrow> error + int" where
  "snap_od_edge t y is_top_edge round_up =
     ebind (get_fin_idx t y is_top_edge (Some round_up))
       (\<lambda>fin_idx. Inr (get_od_edge t fin_idx is_top_edge))"

text \<open>The parity offset that \<open>get_fin_idx\<close> subtracts from \<open>y\<close> before dividing.\<close>

definition grid_offset :: "mos_tech \<Rightarrow> bool \<Rightarrow> int" where
  "grid_offset t is_top_edge =
     (if is_top_edge then fin_h (config t) div 2 + od_fin_exty t
      else - (fin_h (config t) div 2 + od_fin_exty t)) + fin_p (config t) div 2"

text \<open>A technology for concrete evaluation: fin pitch 84, fin height 108.\<close>

definition ex_wire :: wire_info where
  "ex_wire = \<lparr>bot_layer = 1, info_list = [(64, False, 64, 64, 84, 40, 40)]\<rparr>"

definition ex_config :: mos_config where
  "ex_config =
     \<lparr>fin_p = 84, fin_h = 108, od_fin_exty_constants = (6, 0, 0),
      od_po_extx_constants = (0, 0, 1), od_spx = 100, od_spy = 100, imp_od_encx = 65,
      end_margin = 100, edge_margin = 150, mp_cpo_spy = 38, mp_h = 80, mp_spy = 148,
      mp_po_extx = 10, cpo_od_spy = 68, cpo_h = 120, cpo_spy = 180, md_spy = 92,
      md_h_min = 136, md_od_exty = 40, md_w = 80,
      g_wire_info = ex_wire, d_wire_info = ex_wire\<rparr>"

definition ex_lay_table :: mos_lay_table where
  "ex_lay_table =
     \<lparr>lay_MP = (''LiPo'', ''drawing''), lay_PO = (''Poly'', ''drawing''),
      lay_PO_DUMMY = (''Poly'', ''dummy''), lay_PO_PODE = (''Poly'', ''edge''),
      lay_CPO = (''CutPoly'', ''drawing''), lay_OD = (''Active'', ''drawing''),
      lay_MD = (''LiAct'', ''drawing''), lay_FB = (''FinArea'', ''fin48'')\<rparr>"

definition ex_tinfo :: tech_info where
  "ex_tinfo =
     \<lparr>lay_table = ex_lay_table,
      get_lay_purp_list = (\<lambda>_. [(''M1'', ''drawing'')]),
      get_next_length = (\<lambda>_ _ _ _ _ _. 130),
      get_min_line_end_space = (\<lambda>_ _ _ _. 128),
      get_threshold_layers = (\<lambda>_ th. [(th, ''drawing'')]),
      get_implant_layers = (\<lambda>nm. [(nm, ''implant'')]),
      get_well_layers = (\<lambda>nm. [(nm, ''well'')])\<rparr>"

definition ex_tech :: mos_tech where
  "ex_tech = \<lparr>lch = 18, sd_pitch = 86, config = ex_config, tinfo = ex_tinfo\<rparr>"

section \<open>Row types and layout primitives\<close>

text \<open>
  Modelled from the spec: the enum \<open>MOSType\<close> of the layout framework (imported from
  \<open>xbase.layout.enum\<close>, not under src/). The spec's row type is an n-type or p-type
  transistor row or a substrate tap; \<open>nch\<close> and \<open>ptap\<close> sit in the p-well, \<open>pch\<close> and
  \<open>ntap\<close> in the n-well, and the substrate type of a row is the tap of its own well.
\<close>

datatype MOSType = nch | pch | ptap | ntap

fun is_substrate :: "MOSType \<Rightarrow> bool" where
  "is_substrate nch = False"
| "is_substrate pch = False"
| "is_substrate ptap = True"
| "is_substrate ntap = True"

fun is_pwell :: "MOSType \<Rightarrow> bool" where
  "is_pwell nch = True"
| "is_pwell pch = False"
| "is_pwell ptap = True"
| "is_pwell ntap = False"

fun sub_type :: "MOSType \<Rightarrow> MOSType" where
  "sub_type nch = ptap"
| "sub_type pch = ntap"
| "sub_type ptap = ptap"
| "sub_type ntap = ntap"

fun type_name :: "MOSType \<Rightarrow> string" where
  "type_name nch = ''nch''"
| "type_name pch = ''pch''"
| "type_name ptap = ''ptap''"
| "type_name ntap = ''ntap''"

text \<open>
  \<open>BBox(xl, yl, xh, yh)\<close> of the geometry library, with its centre \<open>xm\<close> taken as
  the floor of the midpoint.
\<close>

record BBox =
  box_xl :: int
  box_yl :: int
  box_xh :: int
  box_yh :: int

definition mk_box :: "int \<Rightarrow> int \<Rightarrow> int \<Rightarrow> int \<Rightarrow> BBox" where
  "mk_box a b c d = \<lparr>box_xl = a, box_yl = b, box_xh = c, box_yh = d\<rparr>"

definition box_xm :: "BBox \<Rightarrow> int" where
  "box_xm b = (box_xl b + box_xh b) div 2"

text \<open>
  The layout sink \<open>LayoutInfoBuilder\<close> is external; following the spec it is an
  append-only log. \<open>add_rect_arr(key, box, nx, ny, spx, spy)\<close> appends a rectangle
  array, \<open>add_via(info)\<close> appends a via descriptor and \<open>get_info(bbox)\<close> seals the log
  with a bounding box.
\<close>

record rect_arr =
  ra_key :: lay_purp
  ra_box :: BBox
  ra_nx :: int
  ra_ny :: int
  ra_spx :: int
  ra_spy :: int

record ViaInfo =
  vi_type :: string
  vi_xc :: int
  vi_yc :: int
  vi_w :: int
  vi_h :: int
  vi_enc1 :: "int \<times> int \<times> int \<times> int"
  vi_enc2 :: "int \<times> int \<times> int \<times> int"
  vi_vnx :: int
  vi_vny :: int
  vi_vspx :: int
  vi_vspy :: int
  vi_nx :: int
  vi_ny :: int
  vi_spx :: int
  vi_spy :: int

record builder =
  b_rects :: "rect_arr list"
  b_vias :: "ViaInfo list"

record LayoutInfo =
  li_rects :: "rect_arr list"
  li_vias :: "ViaInfo list"
  li_bbox :: BBox

definition new_builder :: builder where
  "new_builder = \<lparr>b_rects = [], b_vias = []\<rparr>"

definition add_rect_arr ::
  "builder \<Rightarrow> lay_purp \<Rightarrow> BBox \<Rightarrow> int \<Rightarrow> int \<Rightarrow> int \<Rightarrow> int \<Rightarrow> builder" where
  "add_rect_arr b key box nx ny spx spy =
     b\<lparr>b_rects := b_rects b @
        [\<lparr>ra_key = key, ra_box = box, ra_nx = nx, ra_ny = ny, ra_spx = spx, ra_spy = spy\<rparr>]\<rparr>"

text \<open>\<open>add_rect_arr(key, box)\<close> with the defaults \<open>nx = ny = 1\<close>, \<open>spx = spy = 0\<close>.\<close>

definition add_rect :: "builder \<Rightarrow> lay_purp \<Rightarrow> BBox \<Rightarrow> builder" where
  "add_rect b key box = add_rect_arr b key box 1 1 0 0"

definition add_via :: "builder \<Rightarrow> ViaInfo \<Rightarrow> builder" where
  "add_via b v = b\<lparr>b_vias := b_vias b @ [v]\<rparr>"

definition get_info :: "builder \<Rightarrow> BBox \<Rightarrow> LayoutInfo" where
  "get_info b box = \<lparr>li_rects = b_rects b, li_vias = b_vias b, li_bbox = box\<rparr>"

text \<open>The loop \<open>for lay_purp in layers: builder.add_rect_arr(lay_purp, rect)\<close>.\<close>

definition add_rect_layers :: "builder \<Rightarrow> lay_purp list \<Rightarrow> BBox \<Rightarrow> builder" where
  "add_rect_layers b lps box = foldl (\<lambda>b' lp. add_rect b' lp box) b lps"

section \<open>Connection rule resolver\<close>

record ConnInfo =
  ci_w :: int
  ci_len_min :: int
  ci_sp_le :: int
  ci_orient :: Orient2D
  ci_via_w :: int
  ci_via_h :: int
  ci_via_sp :: int
  ci_via_bot_enc :: int
  ci_via_top_enc :: int

text \<open>
  \<open>ConnInfo.get_via_info(via_type, xc, yc, bot_w, ortho, num, nx, ny, spx, spy)\<close>;
  the keyword defaults are written out at each call.
\<close>

definition get_via_info ::
  "ConnInfo \<Rightarrow> string \<Rightarrow> int \<Rightarrow> int \<Rightarrow> int \<Rightarrow> bool \<Rightarrow> int \<Rightarrow> int \<Rightarrow> int \<Rightarrow> int \<Rightarrow> int
     \<Rightarrow> ViaInfo" where
  "get_via_info ci via_type xc yc bot_w ortho num nx ny spx spy =
     (let vw = ci_via_w ci;
          vh = ci_via_h ci;
          vsp = ci_via_sp ci;
          bot_orient = (if ortho then perpendicular (ci_orient ci) else ci_orient ci);
          bot_encx = (if bot_orient = Orient_x then ci_via_bot_enc ci else (bot_w - vw) div 2);
          bot_ency = (if bot_orient = Orient_x then (bot_w - vh) div 2 else ci_via_bot_enc ci);
          top_encx = (if ci_orient ci = Orient_x then ci_via_top_enc ci
                      else (ci_w ci - vw) div 2);
          top_ency = (if ci_orient ci = Orient_x then (ci_w ci - vh) div 2
                      else ci_via_top_enc ci);
          vnx = (if ci_orient ci = Orient_x then num else 1);
          vny = (if ci_orient ci = Orient_x then 1 else num)
      in \<lparr>vi_type = via_type, vi_xc = xc, vi_yc = yc, vi_w = ci_via_w ci, vi_h = ci_via_h ci,
          vi_enc1 = (bot_encx, bot_encx, bot_ency, bot_ency),
          vi_enc2 = (top_encx, top_encx, top_ency, top_ency),
          vi_vnx = vnx, vi_vny = vny, vi_vspx = vsp, vi_vspy = vsp,
          vi_nx = nx, vi_ny = ny, vi_spx = spx, vi_spy = spy\<rparr>)"

definition get_conn_info :: "mos_tech \<Rightarrow> int \<Rightarrow> bool \<Rightarrow> error + ConnInfo" where
  "get_conn_info t conn_layer is_gate =
     (let wire = (if is_gate then g_wire_info (config t) else d_wire_info (config t));
          idx = conn_layer - bot_layer wire
      in ebind (py_index (info_list wire) idx)
           (\<lambda>(w, is_horiz, v_w, v_h, v_sp, v_bot_enc, v_top_enc).
              let orient = (if is_horiz then Orient_x else Orient_y)
              in ebind (py_index (get_lay_purp_list (tinfo t) conn_layer) 0)
                   (\<lambda>(lay, purp).
                      let len_min = get_next_length (tinfo t) lay purp orient w 0 True;
                          sp_le = get_min_line_end_space (tinfo t) lay w purp True
                      in Inr \<lparr>ci_w = w, ci_len_min = len_min, ci_sp_le = sp_le,
                              ci_orient = orient, ci_via_w = v_w, ci_via_h = v_h,
                              ci_via_sp = v_sp, ci_via_bot_enc = v_bot_enc,
                              ci_via_top_enc = v_top_enc\<rparr>)))"

section \<open>Row geometry builder\<close>

record MOSConnYInfo =
  cy_mp :: "int \<times> int"
  cy_g :: "int \<times> int"
  cy_g_m :: "int \<times> int"
  cy_ds :: "int \<times> int"
  cy_ds_m :: "int \<times> int"
  cy_ds_g :: "int \<times> int"
  cy_sub :: "int \<times> int"

definition get_conn_yloc_info ::
  "mos_tech \<Rightarrow> int \<Rightarrow> int \<Rightarrow> int \<Rightarrow> bool \<Rightarrow> error + MOSConnYInfo" where
  "get_conn_yloc_info t conn_layer md_yb md_yt is_sub =
     (if conn_layer \<noteq> 1 then Inl AssertionError
      else
        ebind (get_conn_info t conn_layer True) (\<lambda>g_conn_info.
        ebind (get_conn_info t conn_layer False) (\<lambda>d_conn_info.
          let mp_h' = mp_h (config t);
              g_m1_h = ci_len_min g_conn_info;
              g_m1_sp_le = ci_sp_le g_conn_info;
              g_m1_dyt = ci_via_w g_conn_info div 2 + ci_via_top_enc g_conn_info;
              d_m1_h = max (md_yt - md_yb) (ci_len_min d_conn_info);
              d_m1_yb = (md_yb + md_yt - d_m1_h) div 2;
              d_m1_yt = d_m1_yb + d_m1_h;
              g_m1_yt = d_m1_yb - g_m1_sp_le;
              mp_yc = g_m1_yt - g_m1_dyt;
              mp_yt = mp_yc + mp_h' div 2;
              mp_yb = mp_yt - mp_h'
          in if is_sub then
               (let g_m1_yb = mp_yc - g_m1_dyt;
                    m1_y = (g_m1_yb, d_m1_yt)
                in Inr \<lparr>cy_mp = (mp_yb, mp_yt), cy_g = m1_y, cy_g_m = m1_y, cy_ds = m1_y,
                        cy_ds_m = m1_y, cy_ds_g = m1_y, cy_sub = m1_y\<rparr>)
             else
               (let cpo_h' = cpo_h (config t);
                    g_m1_yb = min (g_m1_yt - g_m1_h) (mp_yc - g_m1_dyt);
                    g_y = (g_m1_yb, g_m1_yt);
                    d_y = (d_m1_yb, d_m1_yt);
                    g_m_y = (0, cpo_h' div 2);
                    d_m_y = (md_yt, max md_yt d_m1_yt);
                    sub_y = (mp_yc - g_m1_dyt, d_m1_yt)
                in Inr \<lparr>cy_mp = (mp_yb, mp_yt), cy_g = g_y, cy_g_m = g_m_y, cy_ds = d_y,
                        cy_ds_m = d_m_y, cy_ds_g = d_y, cy_sub = sub_y\<rparr>))))"

text \<open>
  \<open>MOSRowSpecs\<close>, \<open>RowExtInfo\<close> and \<open>MOSRowInfo\<close> are records of the framework; their
  fields are the ones the source passes and reads. \<open>rs_guard_ring\<close> is
  \<open>specs.options.get('guard_ring')\<close>, absent when \<open>None\<close>. The margin map of a
  \<open>RowExtInfo\<close> holds a (margin, spacing) pair for each of \<open>od\<close>, \<open>md\<close> and \<open>m1\<close>;
  the dictionary \<open>info\<close> of a \<open>MOSRowInfo\<close> holds \<open>od_yb\<close>, \<open>md_y\<close>, \<open>po_y\<close>, \<open>mp_y\<close>.
\<close>

record MOSRowSpecs =
  rs_mos_type :: MOSType
  rs_width :: int
  rs_sub_width :: int
  rs_threshold :: string
  rs_flip :: bool
  rs_guard_ring :: "bool option"

record RowExtInfo =
  re_row_type :: MOSType
  re_threshold :: string
  re_od :: "int \<times> int"
  re_md :: "int \<times> int"
  re_m1 :: "int \<times> int"

record MOSRowInfo =
  ri_lch :: int
  ri_width :: int
  ri_sub_width :: int
  ri_row_type :: MOSType
  ri_threshold :: string
  ri_height :: int
  ri_flip :: bool
  ri_top_ext_info :: RowExtInfo
  ri_bot_ext_info :: RowExtInfo
  ri_od_yb :: int
  ri_md_y :: "int \<times> int"
  ri_po_y :: "int \<times> int"
  ri_mp_y :: "int \<times> int"
  ri_g_conn_y :: "int \<times> int"
  ri_g_m_conn_y :: "int \<times> int"
  ri_ds_conn_y :: "int \<times> int"
  ri_ds_m_conn_y :: "int \<times> int"
  ri_ds_g_conn_y :: "int \<times> int"
  ri_sub_conn_y :: "int \<times> int"
  ri_guard_ring :: bool

text \<open>
  The part of \<open>get_mos_row_info\<close> after the two connection rules are known: the
  vertical stack from the bottom boundary marker to the row height \<open>blk_yt\<close>. It
  returns \<open>(od_yb, od_yt, md_yb, md_yt, blk_yt)\<close>.
\<close>

definition row_stack ::
  "mos_tech \<Rightarrow> ConnInfo \<Rightarrow> ConnInfo \<Rightarrow> int \<Rightarrow> error + (int \<times> int \<times> int \<times> int \<times> int)" where
  "row_stack t g_conn_info d_conn_info w =
     (let fin_p' = fin_p (config t);
          od_h = get_od_height t w;
          md_h = max (od_h + 2 * md_od_exty (config t)) (md_h_min (config t));
          g_m1_dyt = ci_via_w g_conn_info div 2 + ci_via_top_enc g_conn_info;
          g_m1_sp_le = ci_sp_le g_conn_info;
          d_m1_h = max md_h (ci_len_min d_conn_info);
          blk_yb = 0;
          cpo_bot_yb = blk_yb - cpo_h (config t) div 2;
          cpo_bot_yt = cpo_bot_yb + cpo_h (config t);
          mp_yb = max (mp_spy (config t) div 2) (cpo_bot_yt + mp_cpo_spy (config t));
          mp_yt = mp_yb + mp_h (config t);
          mp_yc = (mp_yt + mp_yb) div 2;
          g_m1_yt = mp_yc + g_m1_dyt;
          od_yb0 = g_m1_yt + g_m1_sp_le + (d_m1_h - od_h) div 2
      in ebind (snap_od_edge t od_yb0 False True) (\<lambda>od_yb.
           let od_yt = od_yb + od_h;
               od_yc = (od_yb + od_yt) div 2;
               md_yb = od_yc - md_h div 2;
               md_yt = md_yb + md_h;
               blk_yt0 = od_yt + cpo_od_spy (config t) + cpo_h (config t) div 2
           in ebind (ceildiv blk_yt0 fin_p') (\<lambda>k.
                Inr (od_yb, od_yt, md_yb, md_yt, k * fin_p'))))"

definition get_mos_row_info ::
  "mos_tech \<Rightarrow> int \<Rightarrow> MOSRowSpecs \<Rightarrow> MOSType \<Rightarrow> MOSType \<Rightarrow> error + MOSRowInfo" where
  "get_mos_row_info t conn_layer specs bot_mos_type top_mos_type =
     (let guard_ring = (case rs_guard_ring specs of None \<Rightarrow> False | Some g \<Rightarrow> g)
      in if conn_layer \<noteq> 1 then Inl AssertionError
         else
           (let mos_type = rs_mos_type specs;
                w = rs_width specs;
                w_sub = rs_sub_width specs
            in ebind (get_conn_info t conn_layer True) (\<lambda>g_conn_info.
               ebind (get_conn_info t conn_layer False) (\<lambda>d_conn_info.
               ebind (row_stack t g_conn_info d_conn_info w)
                 (\<lambda>(od_yb, od_yt, md_yb, md_yt, blk_yt).
               ebind (get_conn_yloc_info t conn_layer md_yb md_yt (is_substrate mos_type))
                 (\<lambda>conn_info.
                  let m1_yt = snd (cy_ds conn_info);
                      m1_yb = fst (cy_g conn_info);
                      m1_spy = ci_sp_le d_conn_info;
                      top_einfo =
                        \<lparr>re_row_type = mos_type, re_threshold = rs_threshold specs,
                         re_od = (blk_yt - od_yt, od_spy (config t)),
                         re_md = (blk_yt - md_yt, md_spy (config t)),
                         re_m1 = (blk_yt - m1_yt, m1_spy)\<rparr>;
                      bot_einfo =
                        \<lparr>re_row_type = rs_mos_type specs, re_threshold = rs_threshold specs,
                         re_od = (od_yb, od_spy (config t)),
                         re_md = (md_yb, md_spy (config t)),
                         re_m1 = (m1_yb, m1_spy)\<rparr>
                  in Inr \<lparr>ri_lch = lch t, ri_width = w, ri_sub_width = w_sub,
                          ri_row_type = mos_type, ri_threshold = rs_threshold specs,
                          ri_height = blk_yt, ri_flip = rs_flip specs,
                          ri_top_ext_info = top_einfo, ri_bot_ext_info = bot_einfo,
                          ri_od_yb = od_yb, ri_md_y = (md_yb, md_yt),
                          ri_po_y = (cpo_h (config t) div 2, blk_yt - cpo_h (config t) div 2),
                          ri_mp_y = cy_mp conn_info,
                          ri_g_conn_y = cy_g conn_info, ri_g_m_conn_y = cy_g_m conn_info,
                          ri_ds_conn_y = cy_ds conn_info, ri_ds_m_conn_y = cy_ds_m conn_info,
                          ri_ds_g_conn_y = cy_ds_g conn_info, ri_sub_conn_y = cy_sub conn_info,
                          ri_guard_ring = (guard_ring \<and> is_substrate mos_type)\<rparr>))))))"

definition ex_specs :: MOSRowSpecs where
  "ex_specs =
     \<lparr>rs_mos_type = nch, rs_width = 4, rs_sub_width = 4, rs_threshold = ''standard'',
      rs_flip = False, rs_guard_ring = None\<rparr>"

section \<open>Row extension and edge policy\<close>

text \<open>\<open>ExtWidthInfo(w_list, w_min)\<close>: the allowed small widths and the minimum width, in
  fin pitches.\<close>

record ExtWidthInfo =
  ew_list :: "int list"
  ew_min :: int

definition get_ext_width_info ::
  "mos_tech \<Rightarrow> RowExtInfo \<Rightarrow> RowExtInfo \<Rightarrow> bool \<Rightarrow> error + ExtWidthInfo" where
  "get_ext_width_info t bot_row_ext_info top_row_ext_info ignore_vm_sp_le =
     (let fin_p' = fin_p (config t);
          cpo_h' = cpo_h (config t);
          cpo_spy' = cpo_spy (config t)
      in ebind (ceildiv (cpo_h' + cpo_spy') fin_p') (\<lambda>min_ext_w1.
         ebind (if \<not> ignore_vm_sp_le then
                  (let top_m1 = fst (re_m1 top_row_ext_info);
                       m1_spy = snd (re_m1 top_row_ext_info);
                       bot_m1 = fst (re_m1 bot_row_ext_info)
                   in ceildiv (m1_spy - (top_m1 + bot_m1)) fin_p')
                else Inr 0) (\<lambda>min_ext_w2.
           if min_ext_w2 > 0 then Inr \<lparr>ew_list = [], ew_min = max min_ext_w1 min_ext_w2\<rparr>
           else Inr \<lparr>ew_list = [0], ew_min = min_ext_w1\<rparr>)))"

text \<open>
  \<open>MOSEdgeInfo\<close> is a dictionary of the framework; the source builds it with some of
  the keys \<open>mos_type\<close>, \<open>has_od\<close>, \<open>is_sub\<close>, \<open>blk_h\<close>, \<open>row_type\<close>, \<open>threshold\<close>
  and reads it with \<open>[]\<close>, \<open>.get\<close> and as a truth value (true when not empty). A key
  that is absent is \<open>None\<close>.
\<close>

record MOSEdgeInfo =
  ei_mos_type :: "MOSType option"
  ei_has_od :: "bool option"
  ei_is_sub :: "bool option"
  ei_blk_h :: "int option"
  ei_row_type :: "MOSType option"
  ei_threshold :: "string option"

definition empty_edge :: MOSEdgeInfo where
  "empty_edge = \<lparr>ei_mos_type = None, ei_has_od = None, ei_is_sub = None, ei_blk_h = None,
                  ei_row_type = None, ei_threshold = None\<rparr>"

definition edge_truthy :: "MOSEdgeInfo \<Rightarrow> bool" where
  "edge_truthy e = (e \<noteq> empty_edge)"

text \<open>\<open>MOSEdgeInfo(mos_type=..., has_od=..., is_sub=...)\<close>.\<close>

definition dev_edge :: "MOSType \<Rightarrow> bool \<Rightarrow> bool \<Rightarrow> MOSEdgeInfo" where
  "dev_edge mt od sub = empty_edge\<lparr>ei_mos_type := Some mt, ei_has_od := Some od,
                                   ei_is_sub := Some sub\<rparr>"

record ExtEndLayInfo =
  ee_lay_info :: LayoutInfo
  ee_edge_info :: MOSEdgeInfo

definition add_po_array ::
  "mos_tech \<Rightarrow> builder \<Rightarrow> lay_purp \<Rightarrow> int \<times> int \<Rightarrow> int \<Rightarrow> int \<Rightarrow> builder" where
  "add_po_array t b po_lp po_y start stop =
     (let po_x0 = (sd_pitch t - lch t) div 2 + sd_pitch t * start;
          fg = stop - start
      in add_rect_arr b po_lp (mk_box po_x0 (fst po_y) (po_x0 + lch t) (snd po_y))
           fg 1 (sd_pitch t) 0)"

definition add_fb :: "mos_tech \<Rightarrow> builder \<Rightarrow> BBox \<Rightarrow> builder" where
  "add_fb t b rect =
     (let dy = (fin_p (config t) + fin_h (config t)) div 2
      in add_rect b (lay_FB (lay_table (tinfo t)))
           (mk_box (box_xl rect) (box_yl rect - dy) (box_xh rect) (box_yh rect + dy)))"

definition thres_imp_well_layers_iter ::
  "mos_tech \<Rightarrow> MOSType \<Rightarrow> MOSType \<Rightarrow> string \<Rightarrow> lay_purp list" where
  "thres_imp_well_layers_iter t row_type mos_type threshold =
     (let row_type' = (if is_substrate mos_type \<and> mos_type \<noteq> sub_type row_type
                       then mos_type else row_type)
      in get_threshold_layers (tinfo t) (type_name mos_type) threshold
         @ get_implant_layers (tinfo t) (type_name mos_type)
         @ get_well_layers (tinfo t) (type_name row_type'))"

definition choose_top_implant :: "MOSType \<Rightarrow> MOSType \<Rightarrow> bool" where
  "choose_top_implant bot_type top_type =
     (if is_substrate bot_type \<noteq> is_substrate top_type then is_substrate bot_type
      else is_pwell top_type)"

definition get_mos_ext_info_helper ::
  "mos_tech \<Rightarrow> int \<Rightarrow> int \<Rightarrow> MOSType \<Rightarrow> string \<Rightarrow> ExtEndLayInfo" where
  "get_mos_ext_info_helper t num_cols blk_h row_type threshold =
     (let cpo_lp = lay_CPO (lay_table (tinfo t));
          po_lp = lay_PO_DUMMY (lay_table (tinfo t));
          blk_w = num_cols * sd_pitch t;
          cpo_h2 = cpo_h (config t) div 2;
          blk_rect = mk_box 0 0 blk_w blk_h;
          b1 = add_rect new_builder cpo_lp (mk_box 0 (- cpo_h2) blk_w cpo_h2);
          b2 = add_rect b1 cpo_lp (mk_box 0 (blk_h - cpo_h2) blk_w (blk_h + cpo_h2));
          b3 = add_fb t b2 blk_rect;
          b4 = add_po_array t b3 po_lp (0, blk_h) 0 num_cols;
          b5 = add_rect_layers b4 (thres_imp_well_layers_iter t row_type row_type threshold)
                 blk_rect;
          edge_info = empty_edge\<lparr>ei_blk_h := Some blk_h, ei_row_type := Some row_type,
                                 ei_mos_type := Some row_type, ei_threshold := Some threshold\<rparr>
      in \<lparr>ee_lay_info = get_info b5 blk_rect, ee_edge_info = edge_info\<rparr>)"

definition get_mos_ext_info ::
  "mos_tech \<Rightarrow> int \<Rightarrow> int \<Rightarrow> RowExtInfo \<Rightarrow> RowExtInfo \<Rightarrow> int \<times> int \<Rightarrow> ExtEndLayInfo" where
  "get_mos_ext_info t num_cols blk_h bot_einfo top_einfo gr_info =
     (if choose_top_implant (re_row_type bot_einfo) (re_row_type top_einfo)
      then get_mos_ext_info_helper t num_cols blk_h (re_row_type top_einfo)
             (re_threshold top_einfo)
      else get_mos_ext_info_helper t num_cols blk_h (re_row_type bot_einfo)
             (re_threshold bot_einfo))"

definition ex_ext :: "MOSType \<Rightarrow> string \<Rightarrow> int \<Rightarrow> RowExtInfo" where
  "ex_ext mt th m1 =
     \<lparr>re_row_type = mt, re_threshold = th, re_od = (162, 100), re_md = (122, 92),
      re_m1 = (m1, 128)\<rparr>"

section \<open>Device and tap layout emitter\<close>

datatype MOSPortType = Port_G | Port_D | Port_S

text \<open>
  \<open>BlkExtInfo(row_type, threshold, guard_ring, fg_dev, info)\<close> and
  \<open>MOSLayInfo(lay_info, left_info, right_info, bottom_info, top_info, g_info, d_info,
  s_info, m_info, shorted_ports)\<close> of the framework; the \<open>info\<close> dictionary of a
  \<open>BlkExtInfo\<close> is always empty here and is left out. A wire triple is
  \<open>(x of the first wire, number of wires, pitch)\<close>.
\<close>

record BlkExtInfo =
  be_row_type :: MOSType
  be_threshold :: string
  be_guard_ring :: bool
  be_fg_dev :: "(int \<times> MOSType) list"

record MOSLayInfo =
  ml_lay_info :: LayoutInfo
  ml_left_info :: MOSEdgeInfo
  ml_right_info :: MOSEdgeInfo
  ml_bottom_info :: BlkExtInfo
  ml_top_info :: BlkExtInfo
  ml_g_info :: "int \<times> int \<times> int"
  ml_d_info :: "int \<times> int \<times> int"
  ml_s_info :: "int \<times> int \<times> int"
  ml_m_info :: "(int \<times> int \<times> int) option"
  ml_shorted_ports :: "MOSPortType list"

definition get_mos_active_rect_list ::
  "mos_tech \<Rightarrow> builder \<Rightarrow> MOSRowInfo \<Rightarrow> int \<Rightarrow> int \<Rightarrow> MOSType \<Rightarrow> builder \<times> BBox" where
  "get_mos_active_rect_list t b row_info fg w dev_type =
     (let md_w' = md_w (config t);
          row_type = ri_row_type row_info;
          blk_yt = ri_height row_info;
          od_yb = ri_od_yb row_info;
          md_y = ri_md_y row_info;
          od_lp = lay_OD (lay_table (tinfo t));
          po_lp = lay_PO (lay_table (tinfo t));
          md_lp = lay_MD (lay_table (tinfo t));
          blk_xr = fg * sd_pitch t;
          po_x0 = (sd_pitch t - lch t) div 2;
          od_yt = od_yb + get_od_height t w;
          b1 = add_po_array t b po_lp (0, blk_yt) 0 fg;
          od_sd_dx = od_po_extx t - po_x0;
          od_xl = - od_sd_dx;
          od_xr = fg * sd_pitch t + od_sd_dx;
          b2 = add_rect b1 od_lp (mk_box od_xl od_yb od_xr od_yt);
          md_x0 = (- md_w') div 2;
          b3 = add_rect_arr b2 md_lp (mk_box md_x0 (fst md_y) (md_x0 + md_w') (snd md_y))
                 (fg + 1) 1 (sd_pitch t) 0;
          blk_rect = mk_box 0 0 blk_xr blk_yt;
          blk_box = mk_box 0 0 blk_xr blk_yt;
          b4 = add_rect_layers b3
                 (thres_imp_well_layers_iter t row_type dev_type (ri_threshold row_info)) blk_box;
          b5 = add_fb t b4 blk_rect
      in (b5, blk_rect))"

text \<open>
  \<open>get_mos_conn_info(row_info, conn_layer, seg, w, stack, g_on_s, options)\<close>; the
  argument \<open>export_mid_opt\<close> is \<open>options.get('export_mid', False)\<close>.
\<close>

definition get_mos_conn_info ::
  "mos_tech \<Rightarrow> MOSRowInfo \<Rightarrow> int \<Rightarrow> int \<Rightarrow> int \<Rightarrow> int \<Rightarrow> bool \<Rightarrow> bool \<Rightarrow> error + MOSLayInfo" where
  "get_mos_conn_info t row_info conn_layer seg w stack g_on_s export_mid_opt =
     (if conn_layer \<noteq> 1 then Inl AssertionError
      else
        ebind (get_conn_info t 1 True) (\<lambda>g_info.
        ebind (get_conn_info t 1 False) (\<lambda>d_info.
          let mp_lp = lay_MP (lay_table (tinfo t));
              export_mid = (export_mid_opt \<and> stack = 2);
              row_type = ri_row_type row_info;
              ds_yb = fst (ri_ds_conn_y row_info);
              ds_yt = snd (ri_ds_conn_y row_info);
              threshold = ri_threshold row_info;
              mp_yb = fst (ri_mp_y row_info);
              mp_yt = snd (ri_mp_y row_info);
              md_yb = fst (ri_md_y row_info);
              md_yt = snd (ri_md_y row_info);
              fg = seg * stack;
              wire_pitch = stack * sd_pitch t;
              conn_pitch = 2 * wire_pitch;
              num_s = seg div 2 + 1;
              num_d = (seg + 1) div 2;
              s_xc = 0;
              d_xc = wire_pitch;
              num_g = (if g_on_s then fg div 2 + 1 else (fg + 1) div 2);
              g_xc = (if g_on_s then 0 else sd_pitch t);
              g_pitch = 2 * sd_pitch t;
              act = get_mos_active_rect_list t new_builder row_info fg w row_type;
              bbox = snd act;
              mp_po_dx = (sd_pitch t + lch t) div 2 + mp_po_extx (config t);
              b2 = add_rect_arr (fst act) mp_lp
                     (mk_box (g_xc - mp_po_dx) mp_yb (g_xc + mp_po_dx) mp_yt) num_g 1 g_pitch 0;
              mp_yc = (mp_yb + mp_yt) div 2;
              b3 = add_via b2 (get_via_info g_info ''M1_LiPo'' g_xc mp_yc (mp_h (config t))
                                 True 1 num_g 1 g_pitch 0);
              m1_yc = (md_yb + md_yt) div 2;
              via_pitch = ci_via_h d_info + ci_via_sp d_info
          in ebind (floordiv (md_yt - md_yb - ci_via_bot_enc d_info * 2 + ci_via_sp d_info)
                      via_pitch) (\<lambda>vnum1.
             ebind (floordiv (ds_yt - ds_yb - ci_via_top_enc d_info * 2 + ci_via_sp d_info)
                      via_pitch) (\<lambda>vnum2.
               let vnum = min vnum1 vnum2;
                   b4 = add_via b3 (get_via_info d_info ''M1_LiAct'' d_xc m1_yc (md_w (config t))
                                      False vnum num_d 1 conn_pitch 0);
                   b5 = add_via b4 (get_via_info d_info ''M1_LiAct'' s_xc m1_yc (md_w (config t))
                                      False vnum num_s 1 conn_pitch 0);
                   m_xc = sd_pitch t;
                   num_m = fg + 1 - num_s - num_d;
                   m_info = (if export_mid then Some (m_xc, num_m, wire_pitch) else None);
                   b6 = (if export_mid
                         then add_via b5 (get_via_info d_info ''M1_LiAct'' m_xc m1_yc
                                            (md_w (config t)) False vnum num_m 1 wire_pitch 0)
                         else b5);
                   edge_info = dev_edge row_type True False;
                   be = \<lparr>be_row_type = row_type, be_threshold = threshold,
                         be_guard_ring = False, be_fg_dev = [(fg, row_type)]\<rparr>
               in Inr \<lparr>ml_lay_info = get_info b6 bbox, ml_left_info = edge_info,
                       ml_right_info = edge_info, ml_bottom_info = be, ml_top_info = be,
                       ml_g_info = (g_xc, num_g, g_pitch), ml_d_info = (d_xc, num_d, conn_pitch),
                       ml_s_info = (s_xc, num_s, conn_pitch), ml_m_info = m_info,
                       ml_shorted_ports = [Port_G]\<rparr>)))))"

text \<open>
  Reading the emitted layout: the drain/source/middle vias are the \<open>M1_LiAct\<close> vias,
  the gate vias the \<open>M1_LiPo\<close> vias; \<open>via_num\<close> is the stack count \<open>num\<close> that
  \<open>get_via_info\<close> stored along the wire direction; \<open>arr_xs (x0, n, p)\<close> lists the
  x-coordinates \<open>x0, x0 + p, ...\<close> of an array of \<open>n\<close> elements.
\<close>

definition ds_vias :: "MOSLayInfo \<Rightarrow> ViaInfo list" where
  "ds_vias out = filter (\<lambda>v. vi_type v = ''M1_LiAct'') (li_vias (ml_lay_info out))"

definition gate_vias :: "MOSLayInfo \<Rightarrow> ViaInfo list" where
  "gate_vias out = filter (\<lambda>v. vi_type v = ''M1_LiPo'') (li_vias (ml_lay_info out))"

definition via_num :: "ConnInfo \<Rightarrow> ViaInfo \<Rightarrow> int" where
  "via_num ci v = (if ci_orient ci = Orient_x then vi_vnx v else vi_vny v)"

definition arr_xs :: "int \<times> int \<times> int \<Rightarrow> int list" where
  "arr_xs a = (case a of (x0, n, p) \<Rightarrow> map (\<lambda>k. x0 + int k * p) [0..<nat n])"

definition via_cols :: "ViaInfo \<Rightarrow> int list" where
  "via_cols v = arr_xs (vi_xc v, vi_nx v, vi_spx v)"

text \<open>
  The local function \<open>_add_vg_half(vg_x)\<close> of \<open>get_mos_tap_info\<close>, with the
  variables it closes over as arguments.
\<close>

definition add_vg_half ::
  "mos_tech \<Rightarrow> ConnInfo \<Rightarrow> int \<Rightarrow> int \<Rightarrow> int \<Rightarrow> int \<Rightarrow> int \<Rightarrow> int \<Rightarrow> builder \<Rightarrow> int \<Rightarrow> builder" where
  "add_vg_half t g_info mp_yb mp_yt mp_yc mp_delta num_vg2 vg_pitch b vg_x =
     (let x_l = vg_x - mp_delta;
          x_r = vg_x + (num_vg2 - 1) * vg_pitch + mp_delta;
          b1 = add_rect_arr b (lay_MP (lay_table (tinfo t))) (mk_box x_l mp_yb x_r mp_yt)
                 num_vg2 1 vg_pitch 0
      in add_via b1 (get_via_info g_info ''M1_LiPo'' vg_x mp_yc (mp_h (config t))
                       True 1 num_vg2 1 vg_pitch 0))"

text \<open>
  \<open>get_mos_tap_info(row_info, conn_layer, seg, options)\<close>; \<open>opt_guard_ring\<close> and
  \<open>opt_sub_type\<close> are the entries \<open>guard_ring\<close> and \<open>sub_type\<close> of \<open>options\<close>, \<open>None\<close>
  when absent. \<open>num_po & 1\<close> is the parity of \<open>num_po\<close>.
\<close>

definition get_mos_tap_info ::
  "mos_tech \<Rightarrow> MOSRowInfo \<Rightarrow> int \<Rightarrow> int \<Rightarrow> bool option \<Rightarrow> MOSType option
     \<Rightarrow> error + MOSLayInfo" where
  "get_mos_tap_info t row_info conn_layer seg opt_guard_ring opt_sub_type =
     (let row_type = ri_row_type row_info;
          guard_ring = (case opt_guard_ring of None \<Rightarrow> ri_guard_ring row_info | Some g \<Rightarrow> g);
          sub_type' = (if guard_ring
                       then (case opt_sub_type of None \<Rightarrow> sub_type row_type | Some s \<Rightarrow> s)
                       else sub_type row_type);
          mp_lp = lay_MP (lay_table (tinfo t))
      in ebind (get_conn_info t 1 True) (\<lambda>g_info.
         ebind (get_conn_info t 1 False) (\<lambda>d_info.
           let threshold = ri_threshold row_info;
               ds_yt = snd (ri_ds_conn_y row_info);
               mp_yb = fst (ri_mp_y row_info);
               mp_yt = snd (ri_mp_y row_info);
               md_yb = fst (ri_md_y row_info);
               md_yt = snd (ri_md_y row_info);
               md_yc = (md_yt + md_yb) div 2;
               ds_yb = md_yc - (ds_yt - md_yc);
               fg = seg;
               num_wire = seg + 1;
               num_po = num_wire + 1;
               act = get_mos_active_rect_list t new_builder row_info fg
                       (ri_sub_width row_info) sub_type';
               bbox = snd act;
               mp_yc = (mp_yb + mp_yt) div 2;
               mp_delta = (sd_pitch t + lch t) div 2 + mp_po_extx (config t);
               b_gate =
                 (if odd num_po then
                    (let num_vg = num_po div 2;
                         num_vg2 = (if odd num_vg then (num_vg - 1) div 2 else (num_vg - 2) div 2);
                         num_vgm = (if odd num_vg then 2 else 4);
                         vgm_x = box_xm bbox - ((num_vgm - 1) * sd_pitch t) div 2;
                         mp_xl = vgm_x - mp_delta;
                         mp_xr = vgm_x + (num_vgm - 1) * sd_pitch t + mp_delta;
                         b2 = add_rect_arr (fst act) mp_lp (mk_box mp_xl mp_yb mp_xr mp_yt)
                                num_vgm 1 (sd_pitch t) 0;
                         b3 = add_via b2 (get_via_info g_info ''M1_LiPo'' vgm_x mp_yc
                                            (mp_h (config t)) True 1 num_vgm 1 (sd_pitch t) 0)
                     in if num_vg2 > 0 then
                          (let vg_pitch = 2 * sd_pitch t;
                               b4 = add_vg_half t g_info mp_yb mp_yt mp_yc mp_delta num_vg2
                                      vg_pitch b3 0
                           in add_vg_half t g_info mp_yb mp_yt mp_yc mp_delta num_vg2 vg_pitch b4
                                ((num_wire - 1) * sd_pitch t - (num_vg2 - 1) * vg_pitch))
                        else b3)
                  else
                    (let num_vg = num_po div 2;
                         vg_pitch = 2 * sd_pitch t;
                         b2 = add_rect_arr (fst act) mp_lp (mk_box (- mp_delta) mp_yb mp_delta mp_yt)
                                num_vg 1 vg_pitch 0
                     in add_via b2 (get_via_info g_info ''M1_LiPo'' 0 mp_yc (mp_h (config t))
                                      True 1 num_vg 1 vg_pitch 0)));
               m1_yc = (md_yb + md_yt) div 2;
               via_pitch = ci_via_h d_info + ci_via_sp d_info
           in ebind (floordiv (md_yt - md_yb - ci_via_bot_enc d_info * 2 + ci_via_sp d_info)
                       via_pitch) (\<lambda>vnum_bot.
              ebind (floordiv (ds_yt - ds_yb - ci_via_top_enc d_info * 2 + ci_via_sp d_info)
                       via_pitch) (\<lambda>vnum_top.
                let vnum = min vnum_top vnum_bot;
                    b_ds = add_via b_gate
                             (get_via_info d_info ''M1_LiAct'' 0 m1_yc (md_w (config t))
                                False vnum num_wire 1 (sd_pitch t) 0);
                    edge_info = dev_edge sub_type' True True;
                    be = \<lparr>be_row_type = row_type, be_threshold = threshold,
                          be_guard_ring = guard_ring, be_fg_dev = [(fg, sub_type')]\<rparr>;
                    wire_info = (0, num_wire, sd_pitch t)
                in Inr \<lparr>ml_lay_info = get_info b_ds bbox, ml_left_info = edge_info,
                        ml_right_info = edge_info, ml_bottom_info = be, ml_top_info = be,
                        ml_g_info = wire_info, ml_d_info = wire_info, ml_s_info = wire_info,
                        ml_m_info = None, ml_shorted_ports = []\<rparr>)))))"

text \<open>The array \<open>(x of the first via, count, pitch)\<close> of a via descriptor.\<close>

definition via_arr :: "ViaInfo \<Rightarrow> int \<times> int \<times> int" where
  "via_arr v = (vi_xc v, vi_nx v, vi_spx v)"

text \<open>
  The spec's reading of the tap pattern, for comparison with the code: a leftover
  sub-pattern is a gate via array of 2 or 4 vias at the source-drain pitch; a uniform
  pairwise array is a single gate via array at twice that pitch.
\<close>

definition spec_tap_leftover_pattern :: "mos_tech \<Rightarrow> MOSLayInfo \<Rightarrow> bool" where
  "spec_tap_leftover_pattern t out =
     (\<exists>v \<in> set (gate_vias out). (vi_nx v = 2 \<or> vi_nx v = 4) \<and> vi_spx v = sd_pitch t)"

definition spec_tap_uniform_pairwise :: "mos_tech \<Rightarrow> MOSLayInfo \<Rightarrow> bool" where
  "spec_tap_uniform_pairwise t out =
     (case gate_vias out of [v] \<Rightarrow> vi_spx v = 2 * sd_pitch t | _ \<Rightarrow> False)"

definition ex_row :: MOSRowInfo where
  "ex_row =
     \<lparr>ri_lch = 18, ri_width = 4, ri_sub_width = 4, ri_row_type = nch,
      ri_threshold = ''standard'', ri_height = 924, ri_flip = False,
      ri_top_ext_info = \<lparr>re_row_type = nch, re_threshold = ''standard'',
         re_od = (162, 100), re_md = (122, 92), re_m1 = (122, 128)\<rparr>,
      ri_bot_ext_info = \<lparr>re_row_type = nch, re_threshold = ''standard'',
         re_od = (402, 100), re_md = (362, 92), re_m1 = (90, 128)\<rparr>,
      ri_od_yb = 402, ri_md_y = (362, 802), ri_po_y = (60, 864), ri_mp_y = (122, 202),
      ri_g_conn_y = (90, 234), ri_g_m_conn_y = (0, 60), ri_ds_conn_y = (362, 802),
      ri_ds_m_conn_y = (802, 802), ri_ds_g_conn_y = (362, 802), ri_sub_conn_y = (90, 802),
      ri_guard_ring = False\<rparr>"

text \<open>
  A valid row input: the supported connection layer, a positive fin pitch, a device
  width of at least one fin, non-negative design-rule constants, and both connection
  rules resolved with non-negative gate via dimensions.
\<close>

definition valid_row_input :: "mos_tech \<Rightarrow> int \<Rightarrow> MOSRowSpecs \<Rightarrow> bool" where
  "valid_row_input t conn_layer specs =
     (conn_layer = 1 \<and> 0 < fin_p (config t) \<and> 1 \<le> rs_width specs
      \<and> 0 \<le> fin_h (config t) \<and> 0 \<le> cpo_h (config t) \<and> 0 \<le> cpo_od_spy (config t)
      \<and> 0 \<le> mp_h (config t) \<and> 0 \<le> mp_spy (config t) \<and> 0 \<le> md_od_exty (config t)
      \<and> (case get_conn_info t conn_layer True of
            Inl _ \<Rightarrow> False
          | Inr g \<Rightarrow> 0 \<le> ci_via_w g \<and> 0 \<le> ci_via_top_enc g \<and> 0 \<le> ci_sp_le g)
      \<and> (case get_conn_info t conn_layer False of Inl _ \<Rightarrow> False | Inr d \<Rightarrow> True))"

definition ex_ci :: ConnInfo where
  "ex_ci = \<lparr>ci_w = 64, ci_len_min = 130, ci_sp_le = 128, ci_orient = Orient_y,
          ci_via_w = 64, ci_via_h = 64, ci_via_sp = 84, ci_via_bot_enc = 40,
          ci_via_top_enc = 40\<rparr>"

section \<open>Properties of the grid quantizer\<close>

lemma get_fin_idx_exact:
  assumes "fin_p (config t) \<noteq> 0"
  shows "get_fin_idx t y is_top None =
           (if (y - grid_offset t is_top) mod fin_p (config t) = 0
            then Inr ((y - grid_offset t is_top) div fin_p (config t))
            else Inl (OffFinGrid y))"
proof -
  have q: "y - (if \<not> is_top then - (fin_h (config t) div 2 + od_fin_exty t)
                 else fin_h (config t) div 2 + od_fin_exty t) - fin_p (config t) div 2
           = y - grid_offset t is_top"
    by (simp add: grid_offset_def)
  show ?thesis
    using assms unfolding get_fin_idx_def Let_def q by simp
qed

lemma od_edge_offset: "get_od_edge t i is_top = i * fin_p (config t) + grid_offset t is_top"
  by (simp add: get_od_edge_def grid_offset_def Let_def)

text \<open>
  C1 (grid round-trip). For every fin index \<open>i\<close> and either edge side, \<open>get_fin_idx\<close>
  in exact mode applied to \<open>get_od_edge i\<close> returns \<open>i\<close> and raises nothing. The fin
  pitch of the technology is not zero (with a zero pitch \<open>divmod\<close> raises).
\<close>

theorem grid_round_trip:
  assumes "fin_p (config t) \<noteq> 0"
  shows "get_fin_idx t (get_od_edge t i is_top_edge) is_top_edge None = Inr i"
  using assms by (simp add: get_fin_idx_exact od_edge_offset)

theorem grid_round_trip_witness:
  "fin_p (config ex_tech) \<noteq> 0
   \<and> get_od_edge ex_tech 5 False = 402
   \<and> get_fin_idx ex_tech 402 False None = Inr 5
   \<and> get_od_edge ex_tech (- 3) True = - 150
   \<and> get_fin_idx ex_tech (- 150) True None = Inr (- 3)"
proof -
  have p: "fin_p (config ex_tech) \<noteq> 0"
    by (simp add: ex_tech_def ex_config_def)
  have e1: "get_od_edge ex_tech 5 False = 402"
    by (simp add: get_od_edge_def od_fin_exty_def ex_tech_def ex_config_def)
  have e2: "get_od_edge ex_tech (- 3) True = - 150"
    by (simp add: get_od_edge_def od_fin_exty_def ex_tech_def ex_config_def)
  from grid_round_trip [OF p, of 5 False] grid_round_trip [OF p, of "- 3" True] p e1 e2
  show ?thesis by simp
qed

text \<open>
  C3 (exact-mode grid failure). With a non-zero fin pitch, \<open>get_fin_idx\<close> in exact mode
  raises the off-grid \<open>ValueError\<close> for every \<open>y\<close> whose distance to the parity offset
  is not a multiple of the fin pitch, and for every on-grid \<open>y\<close> it returns the index
  \<open>k\<close> with \<open>y = k * fin_p + offset\<close>; it never returns a rounded index.
\<close>

theorem exact_mode_grid_failure:
  assumes "fin_p (config t) \<noteq> 0"
  shows "(\<not> fin_p (config t) dvd (y - grid_offset t is_top)
            \<longrightarrow> get_fin_idx t y is_top None = Inl (OffFinGrid y))
       \<and> (fin_p (config t) dvd (y - grid_offset t is_top)
            \<longrightarrow> (\<exists>k. get_fin_idx t y is_top None = Inr k
                      \<and> y = k * fin_p (config t) + grid_offset t is_top))"
  using assms by (auto simp add: get_fin_idx_exact mod_eq_0_iff_dvd)

theorem exact_mode_grid_failure_witness:
  "fin_p (config ex_tech) \<noteq> 0
   \<and> grid_offset ex_tech False = - 18
   \<and> \<not> fin_p (config ex_tech) dvd (400 - grid_offset ex_tech False)
   \<and> get_fin_idx ex_tech 400 False None = Inl (OffFinGrid 400)
   \<and> fin_p (config ex_tech) dvd (402 - grid_offset ex_tech False)
   \<and> get_fin_idx ex_tech 402 False None = Inr 5"
proof -
  have p: "fin_p (config ex_tech) \<noteq> 0"
    by (simp add: ex_tech_def ex_config_def)
  have g: "grid_offset ex_tech False = - 18"
    by (simp add: grid_offset_def od_fin_exty_def ex_tech_def ex_config_def)
  have f: "fin_p (config ex_tech) = 84"
    by (simp add: ex_tech_def ex_config_def)
  have off: "\<not> fin_p (config ex_tech) dvd (400 - grid_offset ex_tech False)"
    unfolding g f by presburger
  have on: "fin_p (config ex_tech) dvd (402 - grid_offset ex_tech False)"
    unfolding g f by presburger
  from exact_mode_grid_failure [OF p, of 400 False] off
  have a: "get_fin_idx ex_tech 400 False None = Inl (OffFinGrid 400)" by blast
  from exact_mode_grid_failure [OF p, of 402 False] on
  obtain k where k: "get_fin_idx ex_tech 402 False None = Inr k"
    and y: "402 = k * fin_p (config ex_tech) + grid_offset ex_tech False" by blast
  from y have "k = 5" unfolding g f by presburger
  with k a p g off on show ?thesis by simp
qed

section \<open>Properties of the row geometry builder\<close>

lemma ebind_Inr: "ebind m f = Inr r \<longleftrightarrow> (\<exists>v. m = Inr v \<and> f v = Inr r)"
  by (cases m) (simp_all add: ebind_def)

lemma row_stack_dvd:
  assumes "row_stack t g d w = Inr (a, b, c, e, h)"
  shows "fin_p (config t) dvd h"
  using assms unfolding row_stack_def Let_def
  by (auto simp add: ebind_Inr ceildiv_def split: if_splits)

lemma snap_up_ge:
  assumes "0 < fin_p (config t)" "snap_od_edge t y False True = Inr e"
  shows "y \<le> e"
proof -
  define p where "p = fin_p (config t)"
  define off where "off = grid_offset t False"
  have p: "0 < p" using assms(1) by (simp add: p_def)
  have e: "e = ((y - off) div p + (if (y - off) mod p \<noteq> 0 then 1 else 0)) * p + off"
    using assms
    unfolding snap_od_edge_def get_fin_idx_def get_od_edge_def Let_def ebind_Inr
    by (auto simp add: grid_offset_def p_def off_def algebra_simps split: if_splits)
  have m: "(y - off) mod p < p" using p by simp
  have d: "y - off = (y - off) div p * p + (y - off) mod p" by simp
  show ?thesis
  proof (cases "(y - off) mod p = 0")
    case True
    with e d show ?thesis by simp
  next
    case False
    then have "e = (y - off) div p * p + p + off" using e by (simp add: algebra_simps)
    with d m show ?thesis by linarith
  qed
qed

lemma ceildiv_ge:
  assumes "0 < b" "ceildiv a b = Inr k"
  shows "a \<le> k * b"
proof -
  have k: "k = - ((- a) div b)" using assms by (simp add: ceildiv_def split: if_splits)
  have "0 \<le> (- a) mod b" using assms(1) by simp
  moreover have "(- a) div b * b + (- a) mod b = - a" by simp
  ultimately have "(- a) div b * b \<le> - a" by linarith
  then show ?thesis unfolding k by simp
qed

lemma ebind_returns:
  assumes "\<exists>v. m = Inr v" "\<And>v. \<exists>r. f v = Inr r"
  shows "\<exists>r. ebind m f = Inr r"
  using assms by (auto simp add: ebind_def)

lemma get_fin_idx_rounding_returns:
  assumes "fin_p (config t) \<noteq> 0"
  shows "\<exists>i. get_fin_idx t y is_top (Some round_up) = Inr i"
  using assms by (simp add: get_fin_idx_def Let_def)

lemma snap_od_edge_returns:
  assumes "fin_p (config t) \<noteq> 0"
  shows "\<exists>e. snap_od_edge t y is_top round_up = Inr e"
  unfolding snap_od_edge_def
  by (rule ebind_returns) (simp_all add: get_fin_idx_rounding_returns [OF assms])

lemma ceildiv_returns:
  assumes "b \<noteq> 0"
  shows "\<exists>k. ceildiv a b = Inr k"
  using assms by (simp add: ceildiv_def)

lemma row_stack_returns:
  assumes "fin_p (config t) \<noteq> 0"
  shows "\<exists>r. row_stack t g d w = Inr r"
  unfolding row_stack_def Let_def
  apply (rule ebind_returns)
   apply (rule snap_od_edge_returns [OF assms])
  apply (rule ebind_returns)
   apply (rule ceildiv_returns [OF assms])
  apply simp
  done

lemma row_stack_nonneg:
  assumes p: "0 < fin_p (config t)" and w: "1 \<le> w"
    and c: "0 \<le> fin_h (config t)" "0 \<le> cpo_h (config t)" "0 \<le> cpo_od_spy (config t)"
      "0 \<le> mp_h (config t)" "0 \<le> mp_spy (config t)" "0 \<le> md_od_exty (config t)"
    and g: "0 \<le> ci_via_w g" "0 \<le> ci_via_top_enc g" "0 \<le> ci_sp_le g"
    and r: "row_stack t g d w = Inr (a, b, c', e, h)"
  shows "0 \<le> h"
proof -
  define od_h where "od_h = get_od_height t w"
  define md_h where "md_h = max (od_h + 2 * md_od_exty (config t)) (md_h_min (config t))"
  define d_m1_h where "d_m1_h = max md_h (ci_len_min d)"
  define mp_yb where
    "mp_yb = max (mp_spy (config t) div 2)
               (0 - cpo_h (config t) div 2 + cpo_h (config t) + mp_cpo_spy (config t))"
  define mp_yc where "mp_yc = (mp_yb + mp_h (config t) + mp_yb) div 2"
  define od_yb0 where
    "od_yb0 = mp_yc + (ci_via_w g div 2 + ci_via_top_enc g) + ci_sp_le g + (d_m1_h - od_h) div 2"
  from r obtain od_yb k where
    s: "snap_od_edge t od_yb0 False True = Inr od_yb"
    and k: "ceildiv (od_yb + od_h + cpo_od_spy (config t) + cpo_h (config t) div 2)
              (fin_p (config t)) = Inr k"
    and h: "h = k * fin_p (config t)"
    unfolding row_stack_def Let_def ebind_Inr od_yb0_def mp_yc_def mp_yb_def d_m1_h_def
      md_h_def od_h_def
    by auto
  have "0 \<le> fin_p (config t) * (w - 1)" using p w by simp
  then have od_h: "0 \<le> od_h" using c(1) by (simp add: od_h_def get_od_height_def)
  have "od_h \<le> md_h" using c(6) by (simp add: md_h_def)
  then have dm: "0 \<le> (d_m1_h - od_h) div 2" by (simp add: d_m1_h_def)
  have "0 \<le> mp_spy (config t) div 2" using c(5) by simp
  then have "0 \<le> mp_yb" by (simp add: mp_yb_def)
  then have "0 \<le> mp_yc" using c(4) by (simp add: mp_yc_def)
  moreover have "0 \<le> ci_via_w g div 2" using g(1) by simp
  ultimately have "0 \<le> od_yb0" using g(2,3) dm by (simp add: od_yb0_def)
  with snap_up_ge [OF p s] have "0 \<le> od_yb" by simp
  moreover have "0 \<le> cpo_h (config t) div 2" using c(2) by simp
  ultimately have "0 \<le> od_yb + od_h + cpo_od_spy (config t) + cpo_h (config t) div 2"
    using od_h c(3) by simp
  with ceildiv_ge [OF p k] show ?thesis unfolding h by simp
qed

lemma get_mos_row_info_stack:
  assumes "get_mos_row_info t conn_layer specs bot_type top_type = Inr ri"
  shows "\<exists>g d a b c e.
           get_conn_info t conn_layer True = Inr g
         \<and> get_conn_info t conn_layer False = Inr d
         \<and> row_stack t g d (rs_width specs) = Inr (a, b, c, e, ri_height ri)"
  using assms unfolding get_mos_row_info_def Let_def
  by (auto simp add: ebind_Inr split: if_splits)

lemma get_mos_row_info_returns:
  assumes "conn_layer = 1" "fin_p (config t) \<noteq> 0"
    "get_conn_info t conn_layer True = Inr g" "get_conn_info t conn_layer False = Inr d"
  shows "\<exists>ri. get_mos_row_info t conn_layer specs bot_type top_type = Inr ri"
proof -
  from row_stack_returns [OF assms(2)] obtain r
    where "row_stack t g d (rs_width specs) = Inr r" by blast
  then show ?thesis
    using assms unfolding get_mos_row_info_def get_conn_yloc_info_def Let_def
    by (cases r) (simp add: ebind_def)
qed

lemma ex_conn_info: "get_conn_info ex_tech 1 is_gate = Inr ex_ci"
  by (simp add: get_conn_info_def ex_tech_def ex_config_def ex_tinfo_def ex_wire_def
      py_index_def ebind_def ex_ci_def)

lemma ex_snap: "snap_od_edge ex_tech 378 False True = Inr 402"
  by (simp add: snap_od_edge_def get_fin_idx_def get_od_edge_def od_fin_exty_def ebind_def
      ex_tech_def ex_config_def)

lemma ex_row_stack: "row_stack ex_tech ex_ci ex_ci 4 = Inr (402, 762, 362, 802, 924)"
proof -
  have h: "get_od_height ex_tech 4 = 360"
    by (simp add: get_od_height_def ex_tech_def ex_config_def)
  have c: "config ex_tech = ex_config" by (simp add: ex_tech_def)
  show ?thesis
    unfolding row_stack_def Let_def h c
    by (simp add: ex_config_def ex_ci_def ex_snap ebind_def ceildiv_def)
qed

lemma ex_row_height:
  assumes "get_mos_row_info ex_tech 1 ex_specs nch nch = Inr ri"
  shows "ri_height ri = 924"
proof -
  from get_mos_row_info_stack [OF assms] obtain a b c e where
    r: "row_stack ex_tech ex_ci ex_ci (rs_width ex_specs) = Inr (a, b, c, e, ri_height ri)"
    unfolding ex_conn_info by auto
  have "rs_width ex_specs = 4" by (simp add: ex_specs_def)
  with r ex_row_stack show ?thesis by simp
qed

lemma ex_valid_row_input: "valid_row_input ex_tech 1 ex_specs"
proof -
  have a1: "case get_conn_info ex_tech 1 True of
            Inl _ \<Rightarrow> False
          | Inr g \<Rightarrow> 0 \<le> ci_via_w g \<and> 0 \<le> ci_via_top_enc g \<and> 0 \<le> ci_sp_le g"
    unfolding ex_conn_info by (simp add: ex_ci_def)
  have a2: "0 < fin_p (config ex_tech) \<and> 1 \<le> rs_width ex_specs
      \<and> 0 \<le> fin_h (config ex_tech) \<and> 0 \<le> cpo_h (config ex_tech)
      \<and> 0 \<le> cpo_od_spy (config ex_tech) \<and> 0 \<le> mp_h (config ex_tech)
      \<and> 0 \<le> mp_spy (config ex_tech) \<and> 0 \<le> md_od_exty (config ex_tech)"
    by (simp add: ex_tech_def ex_config_def ex_specs_def)
  have a3: "case get_conn_info ex_tech 1 False of Inl _ \<Rightarrow> False | Inr d \<Rightarrow> True"
    unfolding ex_conn_info by simp
  show ?thesis unfolding valid_row_input_def using a1 a2 a3 by blast
qed

text \<open>
  C2 (row height quantization). Whenever \<open>get_mos_row_info\<close> returns a row, the
  height \<open>blk_yt\<close> stored in it is a multiple of the fin pitch; and for every valid
  row input it does return a row, whose height is a multiple of the fin pitch and not
  negative.
\<close>

theorem row_height_quantization:
  "(\<forall>ri. get_mos_row_info t conn_layer specs bot_type top_type = Inr ri
          \<longrightarrow> fin_p (config t) dvd ri_height ri)
   \<and> (valid_row_input t conn_layer specs
        \<longrightarrow> (\<exists>ri. get_mos_row_info t conn_layer specs bot_type top_type = Inr ri
                  \<and> ri_height ri mod fin_p (config t) = 0 \<and> 0 \<le> ri_height ri))"
proof (intro conjI allI impI)
  fix ri
  assume "get_mos_row_info t conn_layer specs bot_type top_type = Inr ri"
  from get_mos_row_info_stack [OF this] obtain g d a b c e
    where "row_stack t g d (rs_width specs) = Inr (a, b, c, e, ri_height ri)" by blast
  then show "fin_p (config t) dvd ri_height ri" by (rule row_stack_dvd)
next
  assume v: "valid_row_input t conn_layer specs"
  then have vg: "case get_conn_info t conn_layer True of Inl _ \<Rightarrow> False
      | Inr g \<Rightarrow> 0 \<le> ci_via_w g \<and> 0 \<le> ci_via_top_enc g \<and> 0 \<le> ci_sp_le g"
    and vd: "case get_conn_info t conn_layer False of Inl _ \<Rightarrow> False | Inr d \<Rightarrow> True"
    unfolding valid_row_input_def by blast+
  from vg obtain g where g: "get_conn_info t conn_layer True = Inr g"
    and gn: "0 \<le> ci_via_w g" "0 \<le> ci_via_top_enc g" "0 \<le> ci_sp_le g"
    by (cases "get_conn_info t conn_layer True") simp_all
  from vd obtain d where d: "get_conn_info t conn_layer False = Inr d"
    by (cases "get_conn_info t conn_layer False") simp_all
  from v have cl: "conn_layer = 1" and p: "0 < fin_p (config t)" and w: "1 \<le> rs_width specs"
    and c: "0 \<le> fin_h (config t)" "0 \<le> cpo_h (config t)" "0 \<le> cpo_od_spy (config t)"
      "0 \<le> mp_h (config t)" "0 \<le> mp_spy (config t)" "0 \<le> md_od_exty (config t)"
    unfolding valid_row_input_def by blast+
  from p have "fin_p (config t) \<noteq> 0" by simp
  from get_mos_row_info_returns [OF cl this g d] obtain ri
    where ri: "get_mos_row_info t conn_layer specs bot_type top_type = Inr ri" by blast
  from get_mos_row_info_stack [OF ri] obtain g' d' a b c' e
    where g': "get_conn_info t conn_layer True = Inr g'"
      and d': "get_conn_info t conn_layer False = Inr d'"
      and st': "row_stack t g' d' (rs_width specs) = Inr (a, b, c', e, ri_height ri)" by blast
  from g g' d d' have "g' = g" "d' = d" by simp_all
  with st' have st: "row_stack t g d (rs_width specs) = Inr (a, b, c', e, ri_height ri)"
    by simp
  from row_stack_dvd [OF st] have m: "ri_height ri mod fin_p (config t) = 0" by simp
  from row_stack_nonneg [OF p w c gn st] have n: "0 \<le> ri_height ri" .
  show "\<exists>ri. get_mos_row_info t conn_layer specs bot_type top_type = Inr ri
      \<and> ri_height ri mod fin_p (config t) = 0 \<and> 0 \<le> ri_height ri"
    by (rule exI [of _ ri]) (simp add: ri m n)
qed

theorem row_height_quantization_witness:
  "valid_row_input ex_tech 1 ex_specs
   \<and> (\<exists>ri. get_mos_row_info ex_tech 1 ex_specs nch nch = Inr ri
          \<and> ri_height ri = 924 \<and> ri_height ri mod fin_p (config ex_tech) = 0
          \<and> 0 \<le> ri_height ri)"
proof -
  note row_height_quantization [of ex_tech 1 ex_specs nch nch, THEN conjunct2, THEN mp,
      OF ex_valid_row_input]
  then obtain ri
    where ri: "get_mos_row_info ex_tech 1 ex_specs nch nch = Inr ri"
      and m: "ri_height ri mod fin_p (config ex_tech) = 0" and n: "0 \<le> ri_height ri"
    by (elim exE conjE)
  from ex_row_height [OF ri] have "ri_height ri = 924" .
  with ri m n have "get_mos_row_info ex_tech 1 ex_specs nch nch = Inr ri
          \<and> ri_height ri = 924 \<and> ri_height ri mod fin_p (config ex_tech) = 0
          \<and> 0 \<le> ri_height ri" by simp
  then have "\<exists>ri. get_mos_row_info ex_tech 1 ex_specs nch nch = Inr ri
          \<and> ri_height ri = 924 \<and> ri_height ri mod fin_p (config ex_tech) = 0
          \<and> 0 \<le> ri_height ri" by (rule exI)
  with ex_valid_row_input show ?thesis by (rule conjI)
qed

section \<open>Properties of the extension policy\<close>

text \<open>
  C6 (implant-dominance tie-break). The row type that \<open>get_mos_ext_info\<close> hands to
  the extension region is \<open>top\<close> when \<open>_choose_top_implant(bot, top)\<close> holds and \<open>bot\<close>
  otherwise, a function of the two row-type tags alone; the threshold comes from the
  same row. The chosen type is one of the two arguments, it is the transistor row when
  exactly one row is a substrate row, and it is a p-well row when both rows are of the
  same category and one of them is a p-well row.
\<close>

theorem implant_dominance:
  "(let a = re_row_type bot_einfo;
        b = re_row_type top_einfo;
        r = ee_edge_info (get_mos_ext_info t num_cols blk_h bot_einfo top_einfo gr_info);
        c = (if choose_top_implant a b then b else a)
    in ei_row_type r = Some c \<and> ei_mos_type r = Some c
     \<and> ei_threshold r = Some (if choose_top_implant a b then re_threshold top_einfo
                               else re_threshold bot_einfo)
     \<and> (c = a \<or> c = b)
     \<and> (is_substrate a \<noteq> is_substrate b \<longrightarrow> \<not> is_substrate c)
     \<and> (is_substrate a = is_substrate b \<and> (is_pwell a \<or> is_pwell b) \<longrightarrow> is_pwell c))"
  by (auto simp add: Let_def choose_top_implant_def get_mos_ext_info_def
      get_mos_ext_info_helper_def empty_edge_def)

theorem implant_dominance_witness:
  "is_substrate ptap \<noteq> is_substrate pch
   \<and> ei_row_type (ee_edge_info (get_mos_ext_info ex_tech 4 168 (ex_ext ptap ''standard'' 90)
        (ex_ext pch ''lvt'' 122) (0, 0))) = Some pch
   \<and> ei_threshold (ee_edge_info (get_mos_ext_info ex_tech 4 168 (ex_ext ptap ''standard'' 90)
        (ex_ext pch ''lvt'' 122) (0, 0))) = Some ''lvt''
   \<and> \<not> is_substrate pch
   \<and> is_substrate pch = is_substrate nch \<and> is_pwell nch
   \<and> ei_row_type (ee_edge_info (get_mos_ext_info ex_tech 4 168 (ex_ext pch ''lvt'' 90)
        (ex_ext nch ''standard'' 122) (0, 0))) = Some nch
   \<and> ei_row_type (ee_edge_info (get_mos_ext_info ex_tech 4 168 (ex_ext nch ''standard'' 90)
        (ex_ext pch ''lvt'' 122) (0, 0))) = Some nch"
  using implant_dominance [of "ex_ext ptap ''standard'' 90" "ex_ext pch ''lvt'' 122" ex_tech 4 168
      "(0, 0)"]
    implant_dominance [of "ex_ext pch ''lvt'' 90" "ex_ext nch ''standard'' 122" ex_tech 4 168
      "(0, 0)"]
    implant_dominance [of "ex_ext nch ''standard'' 90" "ex_ext pch ''lvt'' 122" ex_tech 4 168
      "(0, 0)"]
  by (simp add: Let_def ex_ext_def choose_top_implant_def)

lemma ceildiv_ceiling:
  assumes "b \<noteq> 0"
  shows "ceildiv a b = Inr \<lceil>real_of_int a / real_of_int b\<rceil>"
  using assms by (simp add: ceildiv_def ceiling_divide_eq_div)

text \<open>
  C7 (minimum extension gap). With a non-zero fin pitch \<open>get_ext_width_info\<close>
  returns, and its minimum width is the maximum of (a) \<open>ceil((cpo_h + cpo_spy) / fin_p)\<close>
  and (b) \<open>ceil((m1_spy - (top_m1 + bot_m1)) / fin_p)\<close>; when \<open>ignore_vm_sp_le\<close> is
  set or (b) is not positive, it is (a) alone.
\<close>

theorem min_extension_gap:
  assumes "fin_p (config t) \<noteq> 0"
  shows "\<exists>r. get_ext_width_info t bot_ext top_ext ignore_vm_sp_le = Inr r
           \<and> ew_min r =
               (let a = \<lceil>real_of_int (cpo_h (config t) + cpo_spy (config t))
                          / real_of_int (fin_p (config t))\<rceil>;
                    b = \<lceil>real_of_int (snd (re_m1 top_ext) - (fst (re_m1 top_ext) + fst (re_m1 bot_ext)))
                          / real_of_int (fin_p (config t))\<rceil>
                in if ignore_vm_sp_le \<or> b \<le> 0 then a else max a b)"
  unfolding get_ext_width_info_def Let_def ceildiv_ceiling [OF assms]
  by (simp add: ebind_def)

theorem min_extension_gap_witness:
  "fin_p (config ex_tech) \<noteq> 0
   \<and> get_ext_width_info ex_tech (ex_ext nch ''standard'' 20) (ex_ext pch ''standard'' 20) False
       = Inr \<lparr>ew_list = [], ew_min = 4\<rparr>
   \<and> get_ext_width_info ex_tech (ex_ext nch ''standard'' (- 300)) (ex_ext pch ''standard'' 0) False
       = Inr \<lparr>ew_list = [], ew_min = 6\<rparr>
   \<and> get_ext_width_info ex_tech (ex_ext nch ''standard'' (- 300)) (ex_ext pch ''standard'' 0) True
       = Inr \<lparr>ew_list = [0], ew_min = 4\<rparr>
   \<and> get_ext_width_info ex_tech (ex_ext nch ''standard'' 90) (ex_ext pch ''standard'' 122) False
       = Inr \<lparr>ew_list = [0], ew_min = 4\<rparr>"
proof -
  have p: "fin_p (config ex_tech) \<noteq> 0" by (simp add: ex_tech_def ex_config_def)
  have c: "config ex_tech = ex_config" by (simp add: ex_tech_def)
  from min_extension_gap [OF p, of "ex_ext nch ''standard'' 20" "ex_ext pch ''standard'' 20" False]
  have "\<exists>r. get_ext_width_info ex_tech (ex_ext nch ''standard'' 20)
      (ex_ext pch ''standard'' 20) False = Inr r" by blast
  then have e1: "get_ext_width_info ex_tech (ex_ext nch ''standard'' 20)
      (ex_ext pch ''standard'' 20) False = Inr \<lparr>ew_list = [], ew_min = 4\<rparr>"
    by (auto simp add: get_ext_width_info_def c ex_config_def ex_ext_def ceildiv_def ebind_def)
  have e2: "get_ext_width_info ex_tech (ex_ext nch ''standard'' (- 300))
      (ex_ext pch ''standard'' 0) False = Inr \<lparr>ew_list = [], ew_min = 6\<rparr>"
    by (simp add: get_ext_width_info_def c ex_config_def ex_ext_def ceildiv_def ebind_def)
  have e3: "get_ext_width_info ex_tech (ex_ext nch ''standard'' (- 300))
      (ex_ext pch ''standard'' 0) True = Inr \<lparr>ew_list = [0], ew_min = 4\<rparr>"
    by (simp add: get_ext_width_info_def c ex_config_def ex_ext_def ceildiv_def ebind_def)
  have e4: "get_ext_width_info ex_tech (ex_ext nch ''standard'' 90)
      (ex_ext pch ''standard'' 122) False = Inr \<lparr>ew_list = [0], ew_min = 4\<rparr>"
    by (simp add: get_ext_width_info_def c ex_config_def ex_ext_def ceildiv_def ebind_def)
  from p e1 e2 e3 e4 show ?thesis by simp
qed

section \<open>Properties of the device emitter\<close>

lemma b_vias_simps:
  "b_vias new_builder = []"
  "b_vias (add_rect_arr b key box nx ny spx spy) = b_vias b"
  "b_vias (add_rect b key box) = b_vias b"
  "b_vias (add_via b v) = b_vias b @ [v]"
  "b_vias (add_fb t b box) = b_vias b"
  "b_vias (add_po_array t b key po_y start stop) = b_vias b"
  by (simp_all add: new_builder_def add_rect_arr_def add_rect_def add_via_def add_fb_def
      add_po_array_def Let_def)

lemma b_vias_add_rect_layers: "b_vias (add_rect_layers b lps box) = b_vias b"
  unfolding add_rect_layers_def
  by (induction lps arbitrary: b) (simp_all add: b_vias_simps)

lemma b_vias_active:
  "b_vias (fst (get_mos_active_rect_list t b row_info fg w dev_type)) = b_vias b"
  by (simp add: get_mos_active_rect_list_def Let_def b_vias_simps b_vias_add_rect_layers)

lemma get_via_info_sel:
  "vi_type (get_via_info ci ty xc yc bw ortho num nx ny spx spy) = ty"
  "vi_xc (get_via_info ci ty xc yc bw ortho num nx ny spx spy) = xc"
  "vi_nx (get_via_info ci ty xc yc bw ortho num nx ny spx spy) = nx"
  "vi_spx (get_via_info ci ty xc yc bw ortho num nx ny spx spy) = spx"
  "via_num ci (get_via_info ci ty xc yc bw ortho num nx ny spx spy) = num"
  by (simp_all add: get_via_info_def via_num_def Let_def)

lemma get_mos_conn_info_Inr:
  assumes "get_mos_conn_info t ri conn_layer seg w stack g_on_s em = Inr out"
  shows "\<exists>g d. conn_layer = 1
      \<and> get_conn_info t 1 True = Inr g \<and> get_conn_info t 1 False = Inr d
      \<and> ci_via_h d + ci_via_sp d \<noteq> 0
      \<and> ml_d_info out = (stack * sd_pitch t, (seg + 1) div 2, 2 * (stack * sd_pitch t))
      \<and> ml_s_info out = (0, seg div 2 + 1, 2 * (stack * sd_pitch t))
      \<and> ml_m_info out =
           (if em \<and> stack = 2
            then Some (sd_pitch t, seg * stack + 1 - (seg div 2 + 1) - (seg + 1) div 2,
                       stack * sd_pitch t)
            else None)
      \<and> ds_vias out =
           map (\<lambda>(xc, n, p).
                  get_via_info d ''M1_LiAct'' xc ((fst (ri_md_y ri) + snd (ri_md_y ri)) div 2)
                    (md_w (config t)) False
                    (min ((snd (ri_md_y ri) - fst (ri_md_y ri) - ci_via_bot_enc d * 2 + ci_via_sp d)
                            div (ci_via_h d + ci_via_sp d))
                         ((snd (ri_ds_conn_y ri) - fst (ri_ds_conn_y ri) - ci_via_top_enc d * 2
                             + ci_via_sp d) div (ci_via_h d + ci_via_sp d)))
                    n 1 p 0)
             ([ml_d_info out, ml_s_info out]
              @ (case ml_m_info out of None \<Rightarrow> [] | Some m \<Rightarrow> [m]))"
  using assms unfolding get_mos_conn_info_def Let_def
  by (auto simp add: ebind_Inr floordiv_def ds_vias_def get_info_def b_vias_simps b_vias_active
      get_via_info_sel split: if_splits)

lemma get_mos_conn_info_returns:
  assumes "conn_layer = 1" "get_conn_info t 1 True = Inr g" "get_conn_info t 1 False = Inr d"
    "ci_via_h d + ci_via_sp d \<noteq> 0"
  shows "\<exists>out. get_mos_conn_info t ri conn_layer seg w stack g_on_s em = Inr out"
  using assms unfolding get_mos_conn_info_def Let_def
  by (simp add: ebind_def floordiv_def)


lemma ds_vias_num:
  assumes r: "get_mos_conn_info t ri conn_layer seg w stack g_on_s em = Inr out"
    and d: "get_conn_info t 1 False = Inr d"
  shows "ds_vias out \<noteq> []
       \<and> (\<forall>v \<in> set (ds_vias out). via_num d v =
            min ((snd (ri_md_y ri) - fst (ri_md_y ri) - ci_via_bot_enc d * 2 + ci_via_sp d)
                   div (ci_via_h d + ci_via_sp d))
                ((snd (ri_ds_conn_y ri) - fst (ri_ds_conn_y ri) - ci_via_top_enc d * 2
                    + ci_via_sp d) div (ci_via_h d + ci_via_sp d)))"
proof -
  from get_mos_conn_info_Inr [OF r] obtain g' d' where
    d': "get_conn_info t 1 False = Inr d'"
    and eq: "ds_vias out =
           map (\<lambda>(xc, n, p).
                  get_via_info d' ''M1_LiAct'' xc ((fst (ri_md_y ri) + snd (ri_md_y ri)) div 2)
                    (md_w (config t)) False
                    (min ((snd (ri_md_y ri) - fst (ri_md_y ri) - ci_via_bot_enc d' * 2
                             + ci_via_sp d') div (ci_via_h d' + ci_via_sp d'))
                         ((snd (ri_ds_conn_y ri) - fst (ri_ds_conn_y ri) - ci_via_top_enc d' * 2
                             + ci_via_sp d') div (ci_via_h d' + ci_via_sp d')))
                    n 1 p 0)
             ([ml_d_info out, ml_s_info out]
              @ (case ml_m_info out of None \<Rightarrow> [] | Some m \<Rightarrow> [m]))"
    by blast
  from d d' have dd: "d' = d" by simp
  show ?thesis unfolding eq dd
    by (auto simp add: get_via_info_sel split_beta)
qed

text \<open>
  C4 (via-count monotonicity). With the connection rules resolved and a positive via
  pitch \<open>via_h + via_sp\<close>, \<open>get_mos_conn_info\<close> returns for a row and for the same
  row with any taller contact band; every drain/source via it emits has the stack count
  \<open>min(vnum1, vnum2)\<close>, the capacities of the contact band \<open>md_yt - md_yb\<close> and of the
  metal span \<open>ds_yt - ds_yb\<close>, and the count for the taller band is at least the count
  for the lower one.
\<close>

theorem via_count_monotone:
  assumes cl: "conn_layer = 1"
    and g: "get_conn_info t 1 True = Inr g"
    and d: "get_conn_info t 1 False = Inr d"
    and pitch: "0 < ci_via_h d + ci_via_sp d"
    and h: "snd (ri_md_y ri) - fst (ri_md_y ri) \<le> snd md_y2 - fst md_y2"
  shows "\<exists>out1 out2.
           get_mos_conn_info t ri conn_layer seg w stack g_on_s em = Inr out1
         \<and> get_mos_conn_info t (ri\<lparr>ri_md_y := md_y2\<rparr>) conn_layer seg w stack g_on_s em = Inr out2
         \<and> ds_vias out1 \<noteq> [] \<and> ds_vias out2 \<noteq> []
         \<and> (\<forall>v \<in> set (ds_vias out1). via_num d v =
              min ((snd (ri_md_y ri) - fst (ri_md_y ri) - ci_via_bot_enc d * 2 + ci_via_sp d)
                     div (ci_via_h d + ci_via_sp d))
                  ((snd (ri_ds_conn_y ri) - fst (ri_ds_conn_y ri) - ci_via_top_enc d * 2
                      + ci_via_sp d) div (ci_via_h d + ci_via_sp d)))
         \<and> (\<forall>v1 \<in> set (ds_vias out1). \<forall>v2 \<in> set (ds_vias out2). via_num d v1 \<le> via_num d v2)"
proof -
  define p where "p = ci_via_h d + ci_via_sp d"
  define c2 where "c2 = (snd (ri_ds_conn_y ri) - fst (ri_ds_conn_y ri) - ci_via_top_enc d * 2
                      + ci_via_sp d) div p"
  define a1 where "a1 = snd (ri_md_y ri) - fst (ri_md_y ri) - ci_via_bot_enc d * 2 + ci_via_sp d"
  define a2 where "a2 = snd md_y2 - fst md_y2 - ci_via_bot_enc d * 2 + ci_via_sp d"
  from pitch have nz: "ci_via_h d + ci_via_sp d \<noteq> 0" by simp
  from get_mos_conn_info_returns [OF cl g d nz] obtain out1
    where r1: "get_mos_conn_info t ri conn_layer seg w stack g_on_s em = Inr out1" by blast
  from get_mos_conn_info_returns [OF cl g d nz] obtain out2
    where r2: "get_mos_conn_info t (ri\<lparr>ri_md_y := md_y2\<rparr>) conn_layer seg w stack g_on_s em
                 = Inr out2" by blast
  from ds_vias_num [OF r1 d] have n1: "ds_vias out1 \<noteq> []"
    and v1: "\<forall>v \<in> set (ds_vias out1). via_num d v = min (a1 div p) c2"
    by (simp_all add: a1_def c2_def p_def)
  from ds_vias_num [OF r2 d] have n2: "ds_vias out2 \<noteq> []"
    and v2: "\<forall>v \<in> set (ds_vias out2). via_num d v = min (a2 div p) c2"
    by (simp_all add: a2_def c2_def p_def)
  from h have "a1 \<le> a2" by (simp add: a1_def a2_def)
  moreover from pitch have "0 < p" by (simp add: p_def)
  ultimately have "a1 div p \<le> a2 div p" by (rule zdiv_mono1)
  then have le: "min (a1 div p) c2 \<le> min (a2 div p) c2" by simp
  have mono: "\<forall>v1 \<in> set (ds_vias out1). \<forall>v2 \<in> set (ds_vias out2). via_num d v1 \<le> via_num d v2"
    using v1 v2 le by simp
  from v1 have v1': "\<forall>v \<in> set (ds_vias out1). via_num d v =
              min ((snd (ri_md_y ri) - fst (ri_md_y ri) - ci_via_bot_enc d * 2 + ci_via_sp d)
                     div (ci_via_h d + ci_via_sp d))
                  ((snd (ri_ds_conn_y ri) - fst (ri_ds_conn_y ri) - ci_via_top_enc d * 2
                      + ci_via_sp d) div (ci_via_h d + ci_via_sp d))"
    by (simp add: a1_def c2_def p_def)
  from r1 r2 n1 n2 v1' mono show ?thesis by blast
qed


lemma ex_ds_via_nums:
  assumes "get_mos_conn_info ex_tech (ex_row\<lparr>ri_md_y := (362, y)\<rparr>) 1 3 4 2 True True = Inr out"
  shows "map (via_num ex_ci) (ds_vias out) = replicate 3 (min ((y - 358) div 148) 3)"
proof -
  from get_mos_conn_info_Inr [OF assms] obtain g d where
    d: "get_conn_info ex_tech 1 False = Inr d"
    and m: "ml_m_info out = (if True \<and> (2::int) = 2
            then Some (sd_pitch ex_tech, 3 * 2 + 1 - (3 div 2 + 1) - (3 + 1) div 2,
                       2 * sd_pitch ex_tech)
            else None)"
    and eq: "ds_vias out =
           map (\<lambda>(xc, n, p).
                  get_via_info d ''M1_LiAct'' xc
                    ((fst (ri_md_y (ex_row\<lparr>ri_md_y := (362, y)\<rparr>))
                      + snd (ri_md_y (ex_row\<lparr>ri_md_y := (362, y)\<rparr>))) div 2)
                    (md_w (config ex_tech)) False
                    (min ((snd (ri_md_y (ex_row\<lparr>ri_md_y := (362, y)\<rparr>))
                           - fst (ri_md_y (ex_row\<lparr>ri_md_y := (362, y)\<rparr>))
                           - ci_via_bot_enc d * 2 + ci_via_sp d)
                            div (ci_via_h d + ci_via_sp d))
                         ((snd (ri_ds_conn_y (ex_row\<lparr>ri_md_y := (362, y)\<rparr>))
                           - fst (ri_ds_conn_y (ex_row\<lparr>ri_md_y := (362, y)\<rparr>))
                           - ci_via_top_enc d * 2
                             + ci_via_sp d) div (ci_via_h d + ci_via_sp d)))
                    n 1 p 0)
             ([ml_d_info out, ml_s_info out]
              @ (case ml_m_info out of None \<Rightarrow> [] | Some m \<Rightarrow> [m]))"
    by blast
  from d have dd: "d = ex_ci" by (simp add: ex_conn_info)
  have ds: "ri_ds_conn_y (ex_row\<lparr>ri_md_y := (362, y)\<rparr>) = (362, 802)"
    by (simp add: ex_row_def)
  show ?thesis unfolding eq dd m ds
    by (simp add: get_via_info_sel split_beta ex_ci_def numeral_3_eq_3)
qed

theorem via_count_monotone_witness:
  "get_conn_info ex_tech 1 True = Inr ex_ci \<and> get_conn_info ex_tech 1 False = Inr ex_ci
   \<and> 0 < ci_via_h ex_ci + ci_via_sp ex_ci
   \<and> snd (ri_md_y (ex_row\<lparr>ri_md_y := (362, 600)\<rparr>)) - fst (ri_md_y (ex_row\<lparr>ri_md_y := (362, 600)\<rparr>))
       \<le> snd (362, 802) - fst (362 :: int, 802 :: int)
   \<and> (\<exists>out1 out2.
         get_mos_conn_info ex_tech (ex_row\<lparr>ri_md_y := (362, 600)\<rparr>) 1 3 4 2 True True = Inr out1
       \<and> get_mos_conn_info ex_tech (ex_row\<lparr>ri_md_y := (362, 802)\<rparr>) 1 3 4 2 True True = Inr out2
       \<and> map (via_num ex_ci) (ds_vias out1) = [1, 1, 1]
       \<and> map (via_num ex_ci) (ds_vias out2) = [3, 3, 3])"
proof -
  have p: "0 < ci_via_h ex_ci + ci_via_sp ex_ci" by (simp add: ex_ci_def)
  have h: "snd (ri_md_y (ex_row\<lparr>ri_md_y := (362, 600)\<rparr>))
           - fst (ri_md_y (ex_row\<lparr>ri_md_y := (362, 600)\<rparr>)) \<le> snd (362, 802) - fst (362 :: int, 802 :: int)"
    by simp
  from via_count_monotone [OF refl ex_conn_info ex_conn_info p h, of 3 4 2 True True]
  obtain out1 out2 where
    r1: "get_mos_conn_info ex_tech (ex_row\<lparr>ri_md_y := (362, 600)\<rparr>) 1 3 4 2 True True = Inr out1"
    and r2: "get_mos_conn_info ex_tech (ex_row\<lparr>ri_md_y := (362, 600), ri_md_y := (362, 802)\<rparr>)
               1 3 4 2 True True = Inr out2"
    by blast
  from r2 have r2': "get_mos_conn_info ex_tech (ex_row\<lparr>ri_md_y := (362, 802)\<rparr>)
               1 3 4 2 True True = Inr out2" by simp
  from ex_ds_via_nums [OF r1] have n1: "map (via_num ex_ci) (ds_vias out1) = [1, 1, 1]"
    by (simp add: numeral_3_eq_3)
  from ex_ds_via_nums [OF r2'] have n2: "map (via_num ex_ci) (ds_vias out2) = [3, 3, 3]"
    by (simp add: numeral_3_eq_3)
  from r1 r2' n1 n2 have "\<exists>out1 out2.
         get_mos_conn_info ex_tech (ex_row\<lparr>ri_md_y := (362, 600)\<rparr>) 1 3 4 2 True True = Inr out1
       \<and> get_mos_conn_info ex_tech (ex_row\<lparr>ri_md_y := (362, 802)\<rparr>) 1 3 4 2 True True = Inr out2
       \<and> map (via_num ex_ci) (ds_vias out1) = [1, 1, 1]
       \<and> map (via_num ex_ci) (ds_vias out2) = [3, 3, 3]" by auto
  with p h ex_conn_info show ?thesis by simp
qed

lemma set_arr_xs:
  assumes "0 \<le> n"
  shows "set (arr_xs (x0, n, p)) = (\<lambda>k. x0 + k * p) ` {0..<n}"
proof -
  have "set (arr_xs (x0, n, p)) = (\<lambda>k. x0 + k * p) ` (int ` {0..<nat n})"
    by (simp add: arr_xs_def image_image)
  also have "int ` {0..<nat n} = {0..<n}"
    using assms by (simp add: image_int_atLeastLessThan)
  finally show ?thesis .
qed

lemma length_arr_xs: "length (arr_xs (x0, n, p)) = nat n"
  by (simp add: arr_xs_def)

lemma stack2_columns_set:
  fixes seg s :: int
  assumes "1 \<le> seg"
  shows "(\<lambda>k. 2 * s + k * (2 * (2 * s))) ` {0..<(seg + 1) div 2}
       \<union> (\<lambda>k. 0 + k * (2 * (2 * s))) ` {0..<seg div 2 + 1}
       \<union> (\<lambda>k. s + k * (2 * s)) ` {0..<seg}
       = (\<lambda>j. j * s) ` {0..seg * 2}" (is "?L = ?R")
proof
  show "?L \<subseteq> ?R"
  proof
    fix x assume "x \<in> ?L"
    then consider k where "0 \<le> k" "k < (seg + 1) div 2" "x = 2 * s + k * (2 * (2 * s))"
      | k where "0 \<le> k" "k < seg div 2 + 1" "x = 0 + k * (2 * (2 * s))"
      | k where "0 \<le> k" "k < seg" "x = s + k * (2 * s)"
      by auto
    then show "x \<in> ?R"
    proof cases
      case 1
      then have "x = (2 + 4 * k) * s" "0 \<le> 2 + 4 * k" "2 + 4 * k \<le> seg * 2"
        by (simp_all add: algebra_simps)
      then show ?thesis by (intro image_eqI [of _ _ "2 + 4 * k"]) simp_all
    next
      case 2
      then have "x = (4 * k) * s" "0 \<le> 4 * k" "4 * k \<le> seg * 2"
        by (simp_all add: algebra_simps)
      then show ?thesis by (intro image_eqI [of _ _ "4 * k"]) simp_all
    next
      case 3
      then have "x = (1 + 2 * k) * s" "0 \<le> 1 + 2 * k" "1 + 2 * k \<le> seg * 2"
        by (simp_all add: algebra_simps)
      then show ?thesis by (intro image_eqI [of _ _ "1 + 2 * k"]) simp_all
    qed
  qed
  show "?R \<subseteq> ?L"
  proof
    fix x assume "x \<in> ?R"
    then obtain j where j: "0 \<le> j" "j \<le> seg * 2" and x: "x = j * s" by auto
    define q where "q = j div 4"
    define h where "h = j div 2"
    have "j mod 4 = 0 \<or> j mod 4 = 2 \<or> j mod 2 = 1" by presburger
    then consider "j mod 4 = 0" | "j mod 4 = 2" | "j mod 2 = 1" by blast
    then show "x \<in> ?L"
    proof cases
      case 1
      then have jq: "j = 4 * q" unfolding q_def by presburger
      have "x = 0 + q * (2 * (2 * s))" unfolding x jq by (simp add: algebra_simps)
      moreover have "0 \<le> q" "q < seg div 2 + 1" using j unfolding q_def by presburger+
      ultimately have "x \<in> (\<lambda>k. 0 + k * (2 * (2 * s))) ` {0..<seg div 2 + 1}"
        by (intro image_eqI [of _ _ q]) simp_all
      then show ?thesis by blast
    next
      case 2
      then have jq: "j = 2 + 4 * q" unfolding q_def by presburger
      have "x = 2 * s + q * (2 * (2 * s))" unfolding x jq by (simp add: algebra_simps)
      moreover have "0 \<le> q" "q < (seg + 1) div 2" using j 2 unfolding q_def by presburger+
      ultimately have "x \<in> (\<lambda>k. 2 * s + k * (2 * (2 * s))) ` {0..<(seg + 1) div 2}"
        by (intro image_eqI [of _ _ q]) simp_all
      then show ?thesis by blast
    next
      case 3
      then have jh: "j = 1 + 2 * h" unfolding h_def by presburger
      have "x = s + h * (2 * s)" unfolding x jh by (simp add: algebra_simps)
      moreover have "0 \<le> h" "h < seg" using j 3 unfolding h_def by presburger+
      ultimately have "x \<in> (\<lambda>k. s + k * (2 * s)) ` {0..<seg}"
        by (intro image_eqI [of _ _ h]) simp_all
      then show ?thesis by blast
    qed
  qed
qed


lemma stack2_columns_list_set:
  fixes seg s :: int
  assumes seg: "1 \<le> seg"
  shows "set (arr_xs (2 * s, (seg + 1) div 2, 2 * (2 * s))
              @ arr_xs (0, seg div 2 + 1, 2 * (2 * s))
              @ arr_xs (s, seg, 2 * s))
         = (\<lambda>j. j * s) ` {0..seg * 2}"
proof -
  have n1: "0 \<le> (seg + 1) div 2" and n2: "0 \<le> seg div 2 + 1" and n3: "0 \<le> seg"
    using seg by presburger+
  have "set (arr_xs (2 * s, (seg + 1) div 2, 2 * (2 * s))
              @ arr_xs (0, seg div 2 + 1, 2 * (2 * s))
              @ arr_xs (s, seg, 2 * s))
        = (\<lambda>k. 2 * s + k * (2 * (2 * s))) ` {0..<(seg + 1) div 2}
          \<union> (\<lambda>k. 0 + k * (2 * (2 * s))) ` {0..<seg div 2 + 1}
          \<union> (\<lambda>k. s + k * (2 * s)) ` {0..<seg}"
    by (simp only: set_append set_arr_xs [OF n1] set_arr_xs [OF n2] set_arr_xs [OF n3] Un_assoc)
  also note stack2_columns_set [OF seg, of s]
  finally show ?thesis .
qed

lemma stack2_columns:
  assumes r: "get_mos_conn_info t ri conn_layer seg w 2 g_on_s True = Inr out"
    and seg: "1 \<le> seg"
  shows "concat (map via_cols (ds_vias out)) =
           arr_xs (2 * sd_pitch t, (seg + 1) div 2, 2 * (2 * sd_pitch t))
           @ arr_xs (0, seg div 2 + 1, 2 * (2 * sd_pitch t))
           @ arr_xs (sd_pitch t, seg, 2 * sd_pitch t)"
proof -
  have n: "seg * 2 + 1 - (seg div 2 + 1) - (seg + 1) div 2 = seg" by presburger
  from get_mos_conn_info_Inr [OF r] obtain g d where
    di: "ml_d_info out = (2 * sd_pitch t, (seg + 1) div 2, 2 * (2 * sd_pitch t))"
    and si: "ml_s_info out = (0, seg div 2 + 1, 2 * (2 * sd_pitch t))"
    and mi: "ml_m_info out = Some (sd_pitch t, seg, 2 * sd_pitch t)"
    and eq: "ds_vias out =
           map (\<lambda>(xc, n, p).
                  get_via_info d ''M1_LiAct'' xc ((fst (ri_md_y ri) + snd (ri_md_y ri)) div 2)
                    (md_w (config t)) False
                    (min ((snd (ri_md_y ri) - fst (ri_md_y ri) - ci_via_bot_enc d * 2 + ci_via_sp d)
                            div (ci_via_h d + ci_via_sp d))
                         ((snd (ri_ds_conn_y ri) - fst (ri_ds_conn_y ri) - ci_via_top_enc d * 2
                             + ci_via_sp d) div (ci_via_h d + ci_via_sp d)))
                    n 1 p 0)
             ([ml_d_info out, ml_s_info out]
              @ (case ml_m_info out of None \<Rightarrow> [] | Some m \<Rightarrow> [m]))"
    unfolding n by auto
  show ?thesis unfolding eq di si mi
    by (simp add: via_cols_def get_via_info_sel)
qed

text \<open>
  C10 (contact-column partition). For \<open>seg \<ge> 1\<close>, \<open>get_mos_conn_info\<close> reports
  \<open>seg // 2 + 1\<close> source columns and \<open>(seg + 1) // 2\<close> drain columns, together
  \<open>seg + 1\<close>. When the middle node is exported (\<open>export_mid\<close> with \<open>stack = 2\<close>) the
  middle count is \<open>seg\<close>, the three counts add up to \<open>seg * stack + 1\<close>, and the columns
  of the three emitted via arrays are exactly the positions \<open>j * sd_pitch\<close> for
  \<open>0 \<le> j \<le> seg * stack\<close>, each once when the pitch is not zero.
\<close>

theorem contact_column_partition:
  assumes r: "get_mos_conn_info t ri conn_layer seg w stack g_on_s em = Inr out"
    and seg: "1 \<le> seg"
  shows "ml_s_info out = (0, seg div 2 + 1, 2 * (stack * sd_pitch t))
       \<and> ml_d_info out = (stack * sd_pitch t, (seg + 1) div 2, 2 * (stack * sd_pitch t))
       \<and> (seg div 2 + 1) + (seg + 1) div 2 = seg + 1
       \<and> (em \<and> stack = 2 \<longrightarrow>
            ml_m_info out = Some (sd_pitch t, seg, stack * sd_pitch t)
          \<and> (seg div 2 + 1) + (seg + 1) div 2 + seg = seg * stack + 1
          \<and> length (concat (map via_cols (ds_vias out))) = nat (seg * stack + 1)
          \<and> set (concat (map via_cols (ds_vias out))) = (\<lambda>j. j * sd_pitch t) ` {0..seg * stack}
          \<and> (sd_pitch t \<noteq> 0 \<longrightarrow> distinct (concat (map via_cols (ds_vias out)))))"
proof (intro conjI impI)
  from get_mos_conn_info_Inr [OF r]
  show "ml_s_info out = (0, seg div 2 + 1, 2 * (stack * sd_pitch t))"
    and "ml_d_info out = (stack * sd_pitch t, (seg + 1) div 2, 2 * (stack * sd_pitch t))"
    by blast+
  show "(seg div 2 + 1) + (seg + 1) div 2 = seg + 1" by presburger
next
  assume e: "em \<and> stack = 2"
  have n: "seg * 2 + 1 - (seg div 2 + 1) - (seg + 1) div 2 = seg" by presburger
  from get_mos_conn_info_Inr [OF r] e
  have "ml_m_info out = Some (sd_pitch t, seg * 2 + 1 - (seg div 2 + 1) - (seg + 1) div 2,
          2 * sd_pitch t)" by auto
  then show "ml_m_info out = Some (sd_pitch t, seg, stack * sd_pitch t)"
    using e unfolding n by simp
  show "(seg div 2 + 1) + (seg + 1) div 2 + seg = seg * stack + 1"
    using e by (simp; presburger)
next
  assume e: "em \<and> stack = 2"
  with r have r2: "get_mos_conn_info t ri conn_layer seg w 2 g_on_s True = Inr out" by simp
  show "length (concat (map via_cols (ds_vias out))) = nat (seg * stack + 1)"
    unfolding stack2_columns [OF r2 seg] using seg e
    by (simp add: length_arr_xs; presburger)
next
  assume e: "em \<and> stack = 2"
  with r have r2: "get_mos_conn_info t ri conn_layer seg w 2 g_on_s True = Inr out" by simp
  from e have s2: "stack = 2" by simp
  show "set (concat (map via_cols (ds_vias out))) = (\<lambda>j. j * sd_pitch t) ` {0..seg * stack}"
    unfolding stack2_columns [OF r2 seg] s2
    by (rule stack2_columns_list_set [OF seg])
next
  assume e: "em \<and> stack = 2" and nz: "sd_pitch t \<noteq> 0"
  with r have r2: "get_mos_conn_info t ri conn_layer seg w 2 g_on_s True = Inr out" by simp
  let ?cols = "concat (map via_cols (ds_vias out))"
  have len: "length ?cols = nat (seg * 2 + 1)"
    unfolding stack2_columns [OF r2 seg] using seg
    by (simp add: length_arr_xs; presburger)
  have st: "set ?cols = (\<lambda>j. j * sd_pitch t) ` {0..seg * 2}"
    unfolding stack2_columns [OF r2 seg]
    by (rule stack2_columns_list_set [OF seg])
  have "inj_on (\<lambda>j. j * sd_pitch t) {0..seg * 2}" using nz by (simp add: inj_on_def)
  then have "card (set ?cols) = card {0..seg * 2}" unfolding st by (rule card_image)
  also have "\<dots> = nat (seg * 2 + 1)" by simp
  finally have "card (set ?cols) = length ?cols" using len by simp
  then show "distinct ?cols" by (rule card_distinct)
qed


theorem contact_column_partition_witness:
  "(1::int) \<le> 3
   \<and> (\<exists>out. get_mos_conn_info ex_tech ex_row 1 3 4 2 True True = Inr out
          \<and> ml_s_info out = (0, 2, 344) \<and> ml_d_info out = (172, 2, 344)
          \<and> ml_m_info out = Some (86, 3, 172)
          \<and> concat (map via_cols (ds_vias out)) = [172, 516, 0, 344, 86, 258, 430]
          \<and> set (concat (map via_cols (ds_vias out))) = (\<lambda>j. j * 86) ` {0..6}
          \<and> distinct (concat (map via_cols (ds_vias out))))"
proof -
  have p: "ci_via_h ex_ci + ci_via_sp ex_ci \<noteq> 0" by (simp add: ex_ci_def)
  have sd: "sd_pitch ex_tech = 86" by (simp add: ex_tech_def)
  from get_mos_conn_info_returns [OF refl ex_conn_info ex_conn_info p] obtain out
    where r: "get_mos_conn_info ex_tech ex_row 1 3 4 2 True True = Inr out" by blast
  have s: "(1::int) \<le> 3" by simp
  note c = contact_column_partition [OF r s]
  from c have si: "ml_s_info out = (0, 2, 344)" by (simp add: sd)
  from c have di: "ml_d_info out = (172, 2, 344)" by (simp add: sd)
  from c have mi: "ml_m_info out = Some (86, 3, 172)" by (simp add: sd)
  from c have st: "set (concat (map via_cols (ds_vias out))) = (\<lambda>j. j * 86) ` {0..6}"
    by (simp add: sd)
  from c have dt: "distinct (concat (map via_cols (ds_vias out)))" by (simp add: sd)
  have cols: "concat (map via_cols (ds_vias out)) = [172, 516, 0, 344, 86, 258, 430]"
    unfolding stack2_columns [OF r s] sd
    by (simp add: arr_xs_def numeral_2_eq_2 numeral_3_eq_3)
  from r si di mi cols st dt have "\<exists>out. get_mos_conn_info ex_tech ex_row 1 3 4 2 True True = Inr out
          \<and> ml_s_info out = (0, 2, 344) \<and> ml_d_info out = (172, 2, 344)
          \<and> ml_m_info out = Some (86, 3, 172)
          \<and> concat (map via_cols (ds_vias out)) = [172, 516, 0, 344, 86, 258, 430]
          \<and> set (concat (map via_cols (ds_vias out))) = (\<lambda>j. j * 86) ` {0..6}
          \<and> distinct (concat (map via_cols (ds_vias out)))"
    by (intro exI [of _ out] conjI)
  with s show ?thesis by (rule conjI)
qed

end
